theory Spec2Isabelle
  imports Complex_Main "HOL-Library.Multiset" "HOL-Library.AList"
begin

section \<open>Product retrieval engine of \<^verbatim>\<open>src/rag/vectorSearch.ts\<close>\<close>

text \<open>
  The development embeds the four functions of \<^verbatim>\<open>src/rag/vectorSearch.ts\<close>:
  \<^verbatim>\<open>vectorSearch\<close>, \<^verbatim>\<open>rerankResults\<close>, \<^verbatim>\<open>hybridSearch\<close> and \<^verbatim>\<open>keywordSearch\<close>.

  Conventions of the embedding.
  \<^item> The two tables the functions read (\<^verbatim>\<open>products\<close>, \<^verbatim>\<open>product_chunks\<close> of
    \<^verbatim>\<open>src/db/schema.ts\<close>) are lists of rows; a nullable column is an \<open>option\<close>.
  \<^item> A query of the query builder is read as the statement it sends: \<^verbatim>\<open>where\<close> keeps the
    rows on which the condition is true (a comparison with NULL is not true),
    \<^verbatim>\<open>orderBy(desc e)\<close> sorts by \<open>e\<close> descending, \<^verbatim>\<open>offset k\<close> skips \<open>k\<close> rows and \<^verbatim>\<open>limit n\<close>
    keeps \<open>n\<close> rows; for \<open>n = 0\<close> the builder (\<^verbatim>\<open>drizzle-orm\<close> 0.29) writes no \<^verbatim>\<open>LIMIT\<close> and
    every row is kept. \<^verbatim>\<open>and(c1, ..., cn)\<close> writes \<^verbatim>\<open>(c1 and ... and cn)\<close> with each argument
    as it stands, a raw \<^verbatim>\<open>sql\<close> fragment without parentheses of its own. SQL leaves the
    order of rows with equal sort keys open; the model keeps them in table order.
  \<^item> What the store and the embedding service compute is a parameter (record
    \<open>external\<close>): the query embedding, the cosine distance \<^verbatim>\<open><=>\<close>, \<^verbatim>\<open>ILIKE\<close> and
    the trigram function \<^verbatim>\<open>similarity(text, text)\<close>.
  \<^item> Scores are JavaScript numbers. Finite numbers are modelled by \<open>real\<close> with exact
    arithmetic (rounding and overflow are not modelled). The one place where finite
    operands yield a non-finite number, the division in \<^verbatim>\<open>rerankResults\<close>, is computed
    in \<open>jsnum\<close>, which adds the IEEE special values \<open>NaN\<close> and the two infinities
    (signed zeros are not modelled).
  \<^item> \<^verbatim>\<open>Array.prototype.sort\<close> is stable; with the comparator \<^verbatim>\<open>(a, b) => b.s - a.s\<close> on
    finite scores it is a stable sort by descending \<open>s\<close>, here \<open>sort_key (\<lambda>x. - s x)\<close>.
  \<^item> A \<^verbatim>\<open>Map\<close> iterates in insertion order and \<^verbatim>\<open>set\<close> on a present key keeps the
    key's place: an association list with \<open>AList.update\<close>.
  \<^item> \<^verbatim>\<open>limit\<close> and \<^verbatim>\<open>offset\<close> are natural numbers, the filter values for \<^verbatim>\<open>availability\<close> and
    \<^verbatim>\<open>productTypes\<close> are labels of the column's enum: the store rejects a query with other
    values.
  \<^item> An error is a value (\<open>error\<close>). The one error of the model is the store's answer to a
    statement that names a column which does not exist; a lost connection and a failure
    of the embedding service are not part of the model.
  \<^item> Logging (\<^verbatim>\<open>console.log\<close>) has no effect on the results and is left out.
\<close>

subsection \<open>JavaScript numbers with the IEEE special values\<close>

datatype jsnum = Fin real | PInf | NInf | NaN

fun js_neg :: "jsnum \<Rightarrow> jsnum" where
  "js_neg (Fin a) = Fin (- a)"
| "js_neg PInf = NInf"
| "js_neg NInf = PInf"
| "js_neg NaN = NaN"

fun js_add :: "jsnum \<Rightarrow> jsnum \<Rightarrow> jsnum" where
  "js_add NaN _ = NaN"
| "js_add _ NaN = NaN"
| "js_add (Fin a) (Fin b) = Fin (a + b)"
| "js_add PInf NInf = NaN"
| "js_add NInf PInf = NaN"
| "js_add PInf _ = PInf"
| "js_add _ PInf = PInf"
| "js_add NInf _ = NInf"
| "js_add _ NInf = NInf"

definition js_sub :: "jsnum \<Rightarrow> jsnum \<Rightarrow> jsnum" where
  "js_sub a b = js_add a (js_neg b)"

text \<open>The sign of an infinity times or over a finite number \<open>x \<noteq> 0\<close>.\<close>

definition signed_inf :: "bool \<Rightarrow> jsnum" where
  "signed_inf positive = (if positive then PInf else NInf)"

fun js_mul :: "jsnum \<Rightarrow> jsnum \<Rightarrow> jsnum" where
  "js_mul NaN _ = NaN"
| "js_mul _ NaN = NaN"
| "js_mul (Fin a) (Fin b) = Fin (a * b)"
| "js_mul (Fin a) PInf = (if a = 0 then NaN else signed_inf (0 < a))"
| "js_mul (Fin a) NInf = (if a = 0 then NaN else signed_inf (a < 0))"
| "js_mul PInf (Fin b) = (if b = 0 then NaN else signed_inf (0 < b))"
| "js_mul NInf (Fin b) = (if b = 0 then NaN else signed_inf (b < 0))"
| "js_mul PInf PInf = PInf"
| "js_mul NInf NInf = PInf"
| "js_mul PInf NInf = NInf"
| "js_mul NInf PInf = NInf"

fun js_div :: "jsnum \<Rightarrow> jsnum \<Rightarrow> jsnum" where
  "js_div NaN _ = NaN"
| "js_div _ NaN = NaN"
| "js_div (Fin a) (Fin b) =
     (if b = 0 then (if a = 0 then NaN else signed_inf (0 < a)) else Fin (a / b))"
| "js_div (Fin a) PInf = Fin 0"
| "js_div (Fin a) NInf = Fin 0"
| "js_div PInf (Fin b) = signed_inf (0 \<le> b)"
| "js_div NInf (Fin b) = signed_inf (b < 0)"
| "js_div PInf PInf = NaN"
| "js_div PInf NInf = NaN"
| "js_div NInf PInf = NaN"
| "js_div NInf NInf = NaN"

fun js_abs :: "jsnum \<Rightarrow> jsnum" where
  "js_abs (Fin a) = Fin \<bar>a\<bar>"
| "js_abs PInf = PInf"
| "js_abs NInf = PInf"
| "js_abs NaN = NaN"

text \<open>\<^verbatim>\<open>Math.max(a, b)\<close>: \<open>NaN\<close> as soon as one argument is \<open>NaN\<close>.\<close>

fun js_max :: "jsnum \<Rightarrow> jsnum \<Rightarrow> jsnum" where
  "js_max NaN _ = NaN"
| "js_max _ NaN = NaN"
| "js_max (Fin a) (Fin b) = Fin (max a b)"
| "js_max PInf _ = PInf"
| "js_max _ PInf = PInf"
| "js_max NInf b = b"
| "js_max a NInf = a"

text \<open>\<^verbatim>\<open>a > b\<close>: false as soon as one operand is \<open>NaN\<close>.\<close>

fun js_gt :: "jsnum \<Rightarrow> jsnum \<Rightarrow> bool" where
  "js_gt NaN _ = False"
| "js_gt _ NaN = False"
| "js_gt (Fin a) (Fin b) = (b < a)"
| "js_gt PInf PInf = False"
| "js_gt PInf _ = True"
| "js_gt _ PInf = False"
| "js_gt NInf _ = False"
| "js_gt (Fin a) NInf = True"

subsection \<open>Data model\<close>

text \<open>The two enums of \<^verbatim>\<open>src/db/schema.ts\<close>.\<close>

datatype productType =
  fashion | furniture | electronics | food | beauty | sports | toys | books | other

datatype availability = in_stock | out_of_stock | on_request | preorder | discontinued

text \<open>
  A row of \<^verbatim>\<open>products\<close>, with the columns the search reads. \<^verbatim>\<open>price_numeric\<close> is a
  \<^verbatim>\<open>decimal(12, 2)\<close>: the row holds its value; the driver hands it to JavaScript as its
  decimal text (\<^verbatim>\<open>"0.00"\<close>, \<^verbatim>\<open>"12.50"\<close>), which is never the empty string and which
  \<^verbatim>\<open>parseFloat\<close> reads back. The columns \<^verbatim>\<open>claims\<close>, \<^verbatim>\<open>specifications\<close>, \<^verbatim>\<open>images\<close>,
  \<^verbatim>\<open>rating_value\<close> and \<^verbatim>\<open>rating_count\<close> are copied into the result's metadata
  unchanged and read by nothing else; they are left out.
\<close>

record Product =
  id :: string
  shopId :: string
  url :: string
  name :: string
  description :: "string option"
  productType :: "productType option"
  category :: "string option"
  subcategory :: "string option"
  priceNumeric :: "real option"
  availability :: "availability option"
  brand :: "string option"

text \<open>A row of \<^verbatim>\<open>product_chunks\<close>.\<close>

record ProductChunk =
  id :: string
  productId :: string
  chunkType :: "string option"
  chunkContent :: string
  embedding :: "real list option"
  position :: "int option"

record Database =
  products :: "Product list"
  productChunks :: "ProductChunk list"

text \<open>What the embedding service and the store compute.\<close>

record external =
  generateEmbeddings :: "string \<Rightarrow> real list"
  cosine_distance :: "real list \<Rightarrow> real list \<Rightarrow> real"
  ilike :: "string \<Rightarrow> string \<Rightarrow> bool"
  trgm_similarity :: "string \<Rightarrow> string \<Rightarrow> real"

text \<open>
  \<^verbatim>\<open>SearchOptions.filters\<close>. An absent field is \<open>None\<close>; the two bounds of
  \<^verbatim>\<open>priceRange\<close> may each be \<^verbatim>\<open>undefined\<close>. The values of \<^verbatim>\<open>availability\<close> and
  \<^verbatim>\<open>productTypes\<close> are cast to the column's enum by the source.
\<close>

record SearchFilters =
  shopId :: "string option"
  priceRange :: "(real option \<times> real option) option"
  categories :: "string list option"
  brands :: "string list option"
  availability :: "availability list option"
  productTypes :: "productType list option"

record SearchOptions =
  query :: string
  limit :: "nat option"
  offset :: "nat option"
  threshold :: "real option"
  filters :: "SearchFilters option"
  includeChunks :: "bool option"
  rerank :: "bool option"

record HybridOptions = SearchOptions +
  vectorWeight :: "real option"
  keywordWeight :: "real option"

record ChunkResult =
  chunkId :: string
  chunkType :: "string option"
  content :: string
  similarity :: real
  position :: int

record Metadata =
  subcategory :: "string option"
  productType :: "productType option"
  availability :: "availability option"

record SearchResult =
  productId :: string
  name :: string
  description :: "string option"
  url :: string
  price :: "real option"
  brand :: "string option"
  category :: "string option"
  similarity :: real
  chunks :: "ChunkResult list option"
  metadata :: Metadata

subsection \<open>\<^verbatim>\<open>rerankResults\<close>: Maximum Marginal Relevance\<close>

text \<open>
  Lines 277 to 284: the similarity of a candidate to one selected result. A price is
  truthy whenever it is not null (see \<open>Product\<close>); \<^verbatim>\<open>===\<close> on two nullable strings is
  equality, so two absent categories count as the same category.
\<close>

definition pair_similarity :: "SearchResult \<Rightarrow> SearchResult \<Rightarrow> jsnum" where
  "pair_similarity selected candidate =
     (let s0 = Fin 0;
          s1 = (if SearchResult.category selected = SearchResult.category candidate
                then js_add s0 (Fin 0.3) else s0);
          s2 = (if SearchResult.brand selected = SearchResult.brand candidate
                then js_add s1 (Fin 0.3) else s1)
      in case (price selected, price candidate) of
           (Some a, Some b) \<Rightarrow>
             (let priceDiff = js_abs (js_sub (Fin a) (Fin b));
                  maxPrice = js_max (Fin a) (Fin b)
              in js_add s2 (js_mul (Fin 0.4) (js_sub (Fin 1) (js_div priceDiff maxPrice))))
         | _ \<Rightarrow> s2)"

text \<open>Lines 274 to 286: the inner loop over the selected results, from 0.\<close>

definition maxSimilarityToSelected :: "SearchResult list \<Rightarrow> SearchResult \<Rightarrow> jsnum" where
  "maxSimilarityToSelected reranked candidate =
     foldl (\<lambda>m selected. js_max m (pair_similarity selected candidate)) (Fin 0) reranked"

text \<open>Line 289.\<close>

definition mmrScore :: "real \<Rightarrow> SearchResult list \<Rightarrow> SearchResult \<Rightarrow> jsnum" where
  "mmrScore lambda reranked candidate =
     js_sub (js_mul (Fin lambda) (Fin (SearchResult.similarity candidate)))
            (js_mul (Fin (1 - lambda)) (maxSimilarityToSelected reranked candidate))"

text \<open>
  Lines 264 to 295: the loop over the candidates from index \<open>i\<close> on, carrying
  \<^verbatim>\<open>bestScore\<close> and \<^verbatim>\<open>bestIndex\<close> (\<open>None\<close> for \<^verbatim>\<open>-1\<close>).
\<close>

fun select_best ::
  "real \<Rightarrow> SearchResult list \<Rightarrow> SearchResult list \<Rightarrow> nat \<Rightarrow> jsnum \<times> nat option
   \<Rightarrow> jsnum \<times> nat option" where
  "select_best lambda reranked [] i best = best"
| "select_best lambda reranked (candidate # rest) i (bestScore, bestIndex) =
     (let s = mmrScore lambda reranked candidate
      in select_best lambda reranked rest (Suc i)
           (if js_gt s bestScore then (s, Some i) else (bestScore, bestIndex)))"

text \<open>\<^verbatim>\<open>remaining.splice(bestIndex, 1)\<close>.\<close>

definition splice1 :: "'a list \<Rightarrow> nat \<Rightarrow> 'a list" where
  "splice1 xs i = take i xs @ drop (Suc i) xs"

text \<open>
  Lines 263 to 303: the \<^verbatim>\<open>while\<close> loop; \<open>n\<close> is \<^verbatim>\<open>results.length\<close>. It ends by its
  condition or by the \<^verbatim>\<open>break\<close> of line 301.
\<close>

function rerank_loop ::
  "real \<Rightarrow> nat \<Rightarrow> SearchResult list \<Rightarrow> SearchResult list \<Rightarrow> SearchResult list" where
  "rerank_loop lambda n reranked remaining =
     (if remaining \<noteq> [] \<and> length reranked < n then
        (case snd (select_best lambda reranked remaining 0 (NInf, None)) of
           Some bestIndex \<Rightarrow>
             rerank_loop lambda n (reranked @ [remaining ! bestIndex])
               (splice1 remaining bestIndex)
         | None \<Rightarrow> reranked)
      else reranked)"
  by pat_completeness auto
termination
  by (relation "measure (\<lambda>(lambda, n, reranked, remaining). n - length reranked)") auto

declare rerank_loop.simps [simp del]

text \<open>
  Lines 248 to 307. \<^verbatim>\<open>remaining.shift()\<close> takes the first result, if there is one.
  The query is not read. The one call (line 238) leaves \<^verbatim>\<open>lambda\<close> at its default 0.7.
\<close>

definition rerankResults :: "string \<Rightarrow> SearchResult list \<Rightarrow> real \<Rightarrow> SearchResult list" where
  "rerankResults qry results lambda =
     (case results of
        [] \<Rightarrow> []
      | first # remaining \<Rightarrow> rerank_loop lambda (length results) [first] remaining)"

subsection \<open>Filter conditions\<close>

text \<open>
  The operators of the query builder on a column value. A nullable column that is NULL
  makes the comparison NULL, which \<^verbatim>\<open>WHERE\<close> does not keep.
\<close>

definition gte :: "real option \<Rightarrow> real \<Rightarrow> bool" where
  "gte column v = (case column of None \<Rightarrow> False | Some x \<Rightarrow> v \<le> x)"

definition lte :: "real option \<Rightarrow> real \<Rightarrow> bool" where
  "lte column v = (case column of None \<Rightarrow> False | Some x \<Rightarrow> x \<le> v)"

definition inArray :: "'a option \<Rightarrow> 'a list \<Rightarrow> bool" where
  "inArray column vs = (case column of None \<Rightarrow> False | Some x \<Rightarrow> x \<in> set vs)"

text \<open>\<^verbatim>\<open>filters = {}\<close>, the default of both searches.\<close>

definition no_filters :: SearchFilters where
  "no_filters = \<lparr> SearchFilters.shopId = None, priceRange = None, categories = None,
     brands = None, SearchFilters.availability = None, productTypes = None \<rparr>"

definition filters_or_default :: "'a SearchOptions_scheme \<Rightarrow> SearchFilters" where
  "filters_or_default options = (case filters options of None \<Rightarrow> no_filters | Some f \<Rightarrow> f)"

text \<open>
  Lines 68 to 80 and, the same text, lines 379 to 391: the conditions on the shop and
  on the price. \<^verbatim>\<open>if (filters.shopId)\<close> is false for an absent and for an empty string;
  an array is always truthy.
\<close>

definition shop_price_conditions :: "SearchFilters \<Rightarrow> (Product \<Rightarrow> bool) list" where
  "shop_price_conditions f =
     (case SearchFilters.shopId f of
        None \<Rightarrow> []
      | Some s \<Rightarrow> if s = [] then [] else [\<lambda>p. Product.shopId p = s])
     @ (case priceRange f of
          None \<Rightarrow> []
        | Some (mn, mx) \<Rightarrow>
            (case mn of None \<Rightarrow> [] | Some lo \<Rightarrow> [\<lambda>p. gte (priceNumeric p) lo])
            @ (case mx of None \<Rightarrow> [] | Some hi \<Rightarrow> [\<lambda>p. lte (priceNumeric p) hi]))"

text \<open>
  Lines 82 to 106, in \<^verbatim>\<open>vectorSearch\<close> only: \<^verbatim>\<open>if (filters.categories?.length)\<close> is
  false for an absent and for an empty array.
\<close>

definition membership_conditions :: "SearchFilters \<Rightarrow> (Product \<Rightarrow> bool) list" where
  "membership_conditions f =
     (case categories f of
        Some (c # cs) \<Rightarrow> [\<lambda>p. inArray (Product.category p) (c # cs)] | _ \<Rightarrow> [])
     @ (case brands f of
          Some (b # bs) \<Rightarrow> [\<lambda>p. inArray (Product.brand p) (b # bs)] | _ \<Rightarrow> [])
     @ (case SearchFilters.availability f of
          Some (a # as) \<Rightarrow> [\<lambda>p. inArray (Product.availability p) (a # as)] | _ \<Rightarrow> [])
     @ (case productTypes f of
          Some (t # ts) \<Rightarrow> [\<lambda>p. inArray (Product.productType p) (t # ts)] | _ \<Rightarrow> [])"

text \<open>Lines 66 to 106: \<^verbatim>\<open>filterConditions\<close> of \<^verbatim>\<open>vectorSearch\<close>.\<close>

definition vector_filterConditions :: "SearchFilters \<Rightarrow> (Product \<Rightarrow> bool) list" where
  "vector_filterConditions f = shop_price_conditions f @ membership_conditions f"

text \<open>
  Lines 376 to 393: \<^verbatim>\<open>filterConditions\<close> of \<^verbatim>\<open>keywordSearch\<close>. After the price the
  source has the comment \<^verbatim>\<open>// ... other filters\<close> and no code.
\<close>

definition keyword_filterConditions :: "SearchFilters \<Rightarrow> (Product \<Rightarrow> bool) list" where
  "keyword_filterConditions f = shop_price_conditions f"

subsection \<open>\<^verbatim>\<open>vectorSearch\<close>\<close>

text \<open>
  Line 116: \<^verbatim>\<open>1 - (embedding <=> query)\<close>; NULL for a chunk without embedding. A row of
  the chunk query is the chunk with this similarity.
\<close>

definition chunk_similarity :: "external \<Rightarrow> real list \<Rightarrow> ProductChunk \<Rightarrow> real option" where
  "chunk_similarity ext queryEmbedding c =
     (case embedding c of
        None \<Rightarrow> None
      | Some e \<Rightarrow> Some (1 - cosine_distance ext e queryEmbedding))"

definition scored_chunks ::
  "external \<Rightarrow> Database \<Rightarrow> real list \<Rightarrow> (ProductChunk \<times> real) list" where
  "scored_chunks ext db queryEmbedding =
     List.map_filter (\<lambda>c. map_option (\<lambda>s. (c, s)) (chunk_similarity ext queryEmbedding c))
       (productChunks db)"

text \<open>
  Lines 119 to 128: the \<^verbatim>\<open>where\<close> of the chunk query. Each filter condition becomes
  \<^verbatim>\<open>product_id IN (SELECT id FROM products WHERE condition)\<close>.
\<close>

definition eligible :: "Database \<Rightarrow> (Product \<Rightarrow> bool) list \<Rightarrow> string \<Rightarrow> bool" where
  "eligible db filterConditions pid =
     list_all (\<lambda>condition. pid \<in> set (map Product.id (filter condition (products db))))
       filterConditions"

definition chunk_matches ::
  "Database \<Rightarrow> (Product \<Rightarrow> bool) list \<Rightarrow> real \<Rightarrow> ProductChunk \<times> real \<Rightarrow> bool" where
  "chunk_matches db filterConditions thr row =
     (thr < snd row \<and> eligible db filterConditions (ProductChunk.productId (fst row)))"

text \<open>Lines 119 to 129: the matching chunks, most similar first.\<close>

definition ranked_chunks ::
  "external \<Rightarrow> Database \<Rightarrow> real list \<Rightarrow> (Product \<Rightarrow> bool) list \<Rightarrow> real
   \<Rightarrow> (ProductChunk \<times> real) list" where
  "ranked_chunks ext db queryEmbedding filterConditions thr =
     sort_key (\<lambda>row. - snd row)
       (filter (chunk_matches db filterConditions thr) (scored_chunks ext db queryEmbedding))"

text \<open>\<^verbatim>\<open>.limit(n)\<close> on the rows of a statement: no \<^verbatim>\<open>LIMIT\<close> is written for \<open>n = 0\<close>.\<close>

definition sql_limit :: "nat \<Rightarrow> 'a list \<Rightarrow> 'a list" where
  "sql_limit n rows = (if n = 0 then rows else take n rows)"

text \<open>Lines 109 to 131: \<^verbatim>\<open>chunkResults\<close>, with \<^verbatim>\<open>.limit(limit * 3).offset(offset)\<close>.\<close>

definition chunk_query ::
  "external \<Rightarrow> Database \<Rightarrow> real list \<Rightarrow> (Product \<Rightarrow> bool) list \<Rightarrow> real \<Rightarrow> nat \<Rightarrow> nat
   \<Rightarrow> (ProductChunk \<times> real) list" where
  "chunk_query ext db queryEmbedding filterConditions thr lmt off =
     sql_limit (lmt * 3) (drop off (ranked_chunks ext db queryEmbedding filterConditions thr))"

text \<open>
  Lines 140 to 161: one turn of the loop over \<^verbatim>\<open>chunkResults\<close>. An entry of
  \<^verbatim>\<open>productScores\<close> is \<open>(maxSimilarity, avgSimilarity, chunks)\<close>.
\<close>

type_synonym scores = "real \<times> real \<times> ChunkResult list"

definition to_ChunkResult :: "ProductChunk \<times> real \<Rightarrow> ChunkResult" where
  "to_ChunkResult row =
     \<lparr> chunkId = ProductChunk.id (fst row),
       ChunkResult.chunkType = ProductChunk.chunkType (fst row),
       content = chunkContent (fst row),
       ChunkResult.similarity = snd row,
       ChunkResult.position = (case ProductChunk.position (fst row) of None \<Rightarrow> 0 | Some n \<Rightarrow> n) \<rparr>"

definition aggregate_step ::
  "(string \<times> scores) list \<Rightarrow> ProductChunk \<times> real \<Rightarrow> (string \<times> scores) list" where
  "aggregate_step productScores row =
     (let key = ProductChunk.productId (fst row);
          existing = (case map_of productScores key of None \<Rightarrow> (0, 0, []) | Some e \<Rightarrow> e);
          maxSimilarity = max (fst existing) (snd row);
          chunks = snd (snd existing) @ [to_ChunkResult row];
          avgSimilarity =
            foldl (\<lambda>sum c. sum + ChunkResult.similarity c) 0 chunks / real (length chunks)
      in AList.update key (maxSimilarity, avgSimilarity, chunks) productScores)"

definition aggregate :: "(ProductChunk \<times> real) list \<Rightarrow> (string \<times> scores) list" where
  "aggregate chunkResults = foldl aggregate_step [] chunkResults"

text \<open>Line 168.\<close>

definition combinedScore :: "scores \<Rightarrow> real" where
  "combinedScore sc = fst sc * 0.7 + fst (snd sc) * 0.3"

text \<open>Lines 164 to 172: \<open>(productId, combinedScore, chunks)\<close>, best first, \<^verbatim>\<open>limit\<close> of them.\<close>

definition topProductIds ::
  "(string \<times> scores) list \<Rightarrow> nat \<Rightarrow> (string \<times> real \<times> ChunkResult list) list" where
  "topProductIds productScores lmt =
     take lmt
       (sort_key (\<lambda>item. - fst (snd item))
          (map (\<lambda>(pid, sc). (pid, combinedScore sc, snd (snd sc))) productScores))"

text \<open>Lines 209 to 231 and 439 to 460: a result from a product row.\<close>

definition to_SearchResult :: "Product \<Rightarrow> real \<Rightarrow> ChunkResult list option \<Rightarrow> SearchResult" where
  "to_SearchResult product score cs =
     \<lparr> SearchResult.productId = Product.id product,
       SearchResult.name = Product.name product,
       SearchResult.description = Product.description product,
       SearchResult.url = Product.url product,
       price = priceNumeric product,
       SearchResult.brand = Product.brand product,
       SearchResult.category = Product.category product,
       SearchResult.similarity = score,
       chunks = cs,
       metadata = \<lparr> Metadata.subcategory = Product.subcategory product,
                    Metadata.productType = Product.productType product,
                    Metadata.availability = Product.availability product \<rparr> \<rparr>"

text \<open>
  Lines 180 to 202: the rows of the products whose id is among the top ids, as a
  \<^verbatim>\<open>Map\<close> by id (a later row with the same id would replace an earlier one).
\<close>

definition productMap :: "Database \<Rightarrow> string list \<Rightarrow> string \<Rightarrow> Product option" where
  "productMap db ids =
     map_of (rev (map (\<lambda>p. (Product.id p, p))
       (filter (\<lambda>p. Product.id p \<in> set ids) (products db))))"

text \<open>
  Lines 205 to 232: \<^verbatim>\<open>map\<close> to a result or \<^verbatim>\<open>null\<close>, then \<^verbatim>\<open>filter(Boolean)\<close>. With
  \<^verbatim>\<open>includeChunks\<close> a result carries its 3 most similar chunks.
\<close>

definition build_results ::
  "(string \<Rightarrow> Product option) \<Rightarrow> bool \<Rightarrow> (string \<times> real \<times> ChunkResult list) list
   \<Rightarrow> SearchResult list" where
  "build_results pm inc items =
     List.map_filter
       (\<lambda>item. case pm (fst item) of
            None \<Rightarrow> None
          | Some product \<Rightarrow>
              Some (to_SearchResult product (fst (snd item))
                (if inc
                 then Some (take 3 (sort_key (\<lambda>c. - ChunkResult.similarity c) (snd (snd item))))
                 else None)))
       items"

text \<open>Lines 47 to 55: the defaults of the options.\<close>

definition limit_or_default :: "'a SearchOptions_scheme \<Rightarrow> nat" where
  "limit_or_default options = (case limit options of None \<Rightarrow> 10 | Some n \<Rightarrow> n)"

definition offset_or_default :: "'a SearchOptions_scheme \<Rightarrow> nat" where
  "offset_or_default options = (case offset options of None \<Rightarrow> 0 | Some n \<Rightarrow> n)"

definition threshold_or_default :: "'a SearchOptions_scheme \<Rightarrow> real" where
  "threshold_or_default options = (case threshold options of None \<Rightarrow> 0.5 | Some t \<Rightarrow> t)"

text \<open>Lines 109 to 131 with the options of the call: \<^verbatim>\<open>chunkResults\<close>.\<close>

definition chunkResults ::
  "external \<Rightarrow> Database \<Rightarrow> 'a SearchOptions_scheme \<Rightarrow> (ProductChunk \<times> real) list" where
  "chunkResults ext db options =
     chunk_query ext db (generateEmbeddings ext (query options))
       (vector_filterConditions (filters_or_default options))
       (threshold_or_default options) (limit_or_default options) (offset_or_default options)"

text \<open>Lines 46 to 242.\<close>

definition vectorSearch :: "external \<Rightarrow> Database \<Rightarrow> 'a SearchOptions_scheme \<Rightarrow> SearchResult list" where
  "vectorSearch ext db options =
     (let top = topProductIds (aggregate (chunkResults ext db options)) (limit_or_default options)
      in if top = [] then []
         else
           (let results = build_results (productMap db (map fst top))
                            (includeChunks options = Some True) top
            in if rerank options = Some True \<and> results \<noteq> []
               then rerankResults (query options) results 0.7
               else results))"

subsection \<open>\<^verbatim>\<open>keywordSearch\<close>\<close>

text \<open>Lines 427 to 430: an \<^verbatim>\<open>ILIKE\<close> test on a nullable column; NULL does not match.\<close>

definition ilike_column :: "external \<Rightarrow> string option \<Rightarrow> string \<Rightarrow> bool" where
  "ilike_column ext column pattern =
     (case column of None \<Rightarrow> False | Some t \<Rightarrow> ilike ext t pattern)"

text \<open>
  Lines 424 to 434: the \<^verbatim>\<open>where\<close> of the product query. The first argument of \<^verbatim>\<open>and\<close> is
  the raw text of the four \<^verbatim>\<open>ILIKE\<close> tests joined by \<^verbatim>\<open>OR\<close>, the others are the filter
  conditions; the statement reads
  \<^verbatim>\<open>(name ILIKE .. OR description ILIKE .. OR category ILIKE .. OR brand ILIKE .. and c1 and ..)\<close>.
  \<^verbatim>\<open>AND\<close> binds tighter than \<^verbatim>\<open>OR\<close>: the filter conditions belong to the test on the brand.
\<close>

definition keyword_where ::
  "external \<Rightarrow> string \<Rightarrow> (Product \<Rightarrow> bool) list \<Rightarrow> Product \<Rightarrow> bool" where
  "keyword_where ext q filterConditions p =
     (let pattern = ''%'' @ q @ ''%''
      in ilike ext (Product.name p) pattern
         \<or> ilike_column ext (Product.description p) pattern
         \<or> ilike_column ext (Product.category p) pattern
         \<or> (ilike_column ext (Product.brand p) pattern
            \<and> list_all (\<lambda>condition. condition p) filterConditions))"

text \<open>Lines 414 to 421: \<^verbatim>\<open>GREATEST\<close> of the four trigram similarities.\<close>

definition coalesce :: "string option \<Rightarrow> string" where
  "coalesce column = (case column of None \<Rightarrow> [] | Some t \<Rightarrow> t)"

definition keyword_score :: "external \<Rightarrow> string \<Rightarrow> Product \<Rightarrow> real" where
  "keyword_score ext q p =
     max (max (max (trgm_similarity ext (Product.name p) q)
                   (trgm_similarity ext (coalesce (Product.description p)) q))
              (trgm_similarity ext (coalesce (Product.category p)) q))
         (trgm_similarity ext (coalesce (Product.brand p)) q)"

text \<open>
  Lines 397 to 422: the columns of the result as the store names them. The builder
  writes a field of \<^verbatim>\<open>select\<close> as its expression; it writes \<^verbatim>\<open>AS\<close> only where the source
  applies \<^verbatim>\<open>.as(...)\<close>, which it does nowhere. The key \<^verbatim>\<open>similarity\<close> of line 414 is the
  name of the field in the JavaScript row and is not part of the statement. A selected
  column keeps its name, and the expression of lines 415 to 420 gets the name of its
  function.
\<close>

definition keyword_select_names :: "string list" where
  "keyword_select_names =
     [''id'', ''name'', ''description'', ''url'', ''price_numeric'', ''brand'', ''category'',
      ''subcategory'', ''product_type'', ''availability'', ''claims'', ''specifications'',
      ''images'', ''rating_value'', ''rating_count'', ''greatest'']"

text \<open>\<^verbatim>\<open>src/db/schema.ts\<close>, lines 86 to 143: the columns of \<^verbatim>\<open>products\<close>.\<close>

definition products_columns :: "string list" where
  "products_columns =
     [''id'', ''shop_id'', ''url'', ''name'', ''description'', ''product_type'', ''category'',
      ''subcategory'', ''tags'', ''price_numeric'', ''price_original'', ''currency'',
      ''availability'', ''rating_value'', ''rating_count'', ''brand'', ''sku'', ''ean'',
      ''claims'', ''warnings'', ''specifications'', ''attributes'', ''images'', ''videos'',
      ''locale'', ''page_markdown'', ''extracted_data'', ''version_hash'', ''last_crawled_at'',
      ''created_at'', ''updated_at'']"

text \<open>
  The store's answer to a name that is no column: SQLSTATE 42703,
  \<^verbatim>\<open>column "..." does not exist\<close>. The driver rejects the promise with it, and neither
  \<^verbatim>\<open>keywordSearch\<close> nor \<^verbatim>\<open>hybridSearch\<close> catches it.
\<close>

datatype error = UndefinedColumn string

text \<open>
  A bare name in \<^verbatim>\<open>ORDER BY\<close> is the name of a column of the result or, failing that, of
  a column of the table in \<^verbatim>\<open>FROM\<close>.
\<close>

definition order_by_resolves :: "string \<Rightarrow> bool" where
  "order_by_resolves column =
     (column \<in> set keyword_select_names \<or> column \<in> set products_columns)"

text \<open>
  Lines 396 to 437: the product query. The store checks the names of a statement before
  it reads a row: line 435 orders by the bare name \<^verbatim>\<open>similarity\<close>, and the statement
  fails when no column has that name. The rows of the other branch are those of a
  statement in which the name stands for the score of lines 414 to 421, with
  \<^verbatim>\<open>.limit(limit)\<close> and \<^verbatim>\<open>.offset(offset)\<close> of lines 436 and 437.
\<close>

definition keyword_rows ::
  "external \<Rightarrow> Database \<Rightarrow> string \<Rightarrow> (Product \<Rightarrow> bool) list \<Rightarrow> nat \<Rightarrow> nat
   \<Rightarrow> error + (Product \<times> real) list" where
  "keyword_rows ext db q filterConditions lmt off =
     (if order_by_resolves ''similarity''
      then Inr (sql_limit lmt (drop off
             (sort_key (\<lambda>row. - snd row)
                (map (\<lambda>p. (p, keyword_score ext q p))
                   (filter (keyword_where ext q filterConditions) (products db))))))
      else Inl (UndefinedColumn ''similarity''))"

text \<open>
  Lines 371 to 461: the rows, when the statement returns, become results;
  \<^verbatim>\<open>product.similarity || 0\<close> leaves a finite score as it is.
\<close>

definition keywordSearch ::
  "external \<Rightarrow> Database \<Rightarrow> 'a SearchOptions_scheme \<Rightarrow> error + SearchResult list" where
  "keywordSearch ext db options =
     (case keyword_rows ext db (query options)
             (keyword_filterConditions (filters_or_default options))
             (limit_or_default options) (offset_or_default options) of
        Inl e \<Rightarrow> Inl e
      | Inr rows \<Rightarrow> Inr (map (\<lambda>row. to_SearchResult (fst row) (snd row) None) rows))"

subsection \<open>\<^verbatim>\<open>hybridSearch\<close>\<close>

text \<open>
  Lines 338 to 341 and 344 to 352: the two loops that fill \<^verbatim>\<open>combinedScores\<close> and
  \<^verbatim>\<open>resultMap\<close>. \<^verbatim>\<open>combinedScores.get(id) || 0\<close> is 0 for an absent id.
\<close>

definition add_vector ::
  "real \<Rightarrow> (string \<times> real) list \<times> (string \<rightharpoonup> SearchResult) \<Rightarrow> SearchResult
   \<Rightarrow> (string \<times> real) list \<times> (string \<rightharpoonup> SearchResult)" where
  "add_vector vw state result =
     (AList.update (SearchResult.productId result) (SearchResult.similarity result * vw) (fst state),
      (snd state)(SearchResult.productId result \<mapsto> result))"

definition add_keyword ::
  "real \<Rightarrow> (string \<times> real) list \<times> (string \<rightharpoonup> SearchResult) \<Rightarrow> SearchResult
   \<Rightarrow> (string \<times> real) list \<times> (string \<rightharpoonup> SearchResult)" where
  "add_keyword kw state result =
     (let currentScore =
            (case map_of (fst state) (SearchResult.productId result) of None \<Rightarrow> 0 | Some s \<Rightarrow> s)
      in (AList.update (SearchResult.productId result)
            (currentScore + SearchResult.similarity result * kw) (fst state),
          if snd state (SearchResult.productId result) = None
          then (snd state)(SearchResult.productId result \<mapsto> result)
          else snd state))"

text \<open>
  Lines 334 to 361 for given weights and a given cut \<open>lmt\<close>. Every key of
  \<^verbatim>\<open>combinedScores\<close> is a key of \<^verbatim>\<open>resultMap\<close>, so that \<^verbatim>\<open>resultMap.get(productId)!\<close> finds a
  result.
\<close>

definition combine ::
  "real \<Rightarrow> real \<Rightarrow> nat \<Rightarrow> SearchResult list \<Rightarrow> SearchResult list \<Rightarrow> SearchResult list" where
  "combine vw kw lmt vectorResults keywordResults =
     (let state = foldl (add_keyword kw) (foldl (add_vector vw) ([], Map.empty) vectorResults)
                    keywordResults
      in map (\<lambda>(pid, score). (the (snd state pid))\<lparr> SearchResult.similarity := score \<rparr>)
           (take lmt (sort_key (\<lambda>entry. - snd entry) (fst state))))"

text \<open>Line 357: \<^verbatim>\<open>searchOptions.limit || 10\<close>, which is 10 for an absent limit and for 0.\<close>

definition hybrid_limit :: "'a SearchOptions_scheme \<Rightarrow> nat" where
  "hybrid_limit options = (case limit options of None \<Rightarrow> 10 | Some n \<Rightarrow> if n = 0 then 10 else n)"

text \<open>
  Lines 318 to 323 and 334 to 361: the fusion of \<^verbatim>\<open>hybridSearch\<close> with the weights and
  the limit of its options, as a function of the two result lists.
\<close>

definition fusion :: "HybridOptions \<Rightarrow> SearchResult list \<Rightarrow> SearchResult list \<Rightarrow> SearchResult list" where
  "fusion options vectorResults keywordResults =
     combine (case vectorWeight options of None \<Rightarrow> 0.7 | Some w \<Rightarrow> w)
             (case keywordWeight options of None \<Rightarrow> 0.3 | Some w \<Rightarrow> w)
             (hybrid_limit options) vectorResults keywordResults"

text \<open>
  Lines 312 to 366. The vector search is called with \<^verbatim>\<open>rerank: false\<close> whatever the
  options say, then the keyword search; an error of the keyword search ends
  \<^verbatim>\<open>hybridSearch\<close> before the fusion. \<^verbatim>\<open>rerankResults\<close> is not called.
\<close>

definition hybridSearch :: "external \<Rightarrow> Database \<Rightarrow> HybridOptions \<Rightarrow> error + SearchResult list" where
  "hybridSearch ext db options =
     (let vectorResults = vectorSearch ext db (options\<lparr> rerank := Some False \<rparr>)
      in case keywordSearch ext db options of
           Inl e \<Rightarrow> Inl e
         | Inr keywordResults \<Rightarrow> Inr (fusion options vectorResults keywordResults))"

section \<open>The formulas of the specification\<close>

text \<open>
  Section 4.6 of the specification in its own words, over the reals: the pairwise
  similarity of two results, the diversity penalty of a candidate (the largest pairwise
  similarity to a selected result) and the MMR score.
\<close>

definition pairwise_similarity :: "SearchResult \<Rightarrow> SearchResult \<Rightarrow> real" where
  "pairwise_similarity a b =
     (if SearchResult.category a = SearchResult.category b then 0.3 else 0)
     + (if SearchResult.brand a = SearchResult.brand b then 0.3 else 0)
     + (case (price a, price b) of
          (Some pa, Some pb) \<Rightarrow> 0.4 * (1 - \<bar>pa - pb\<bar> / max pa pb)
        | _ \<Rightarrow> 0)"

definition diversityPenalty :: "SearchResult list \<Rightarrow> SearchResult \<Rightarrow> real" where
  "diversityPenalty selected candidate =
     Max ((\<lambda>s. pairwise_similarity s candidate) ` set selected)"

definition mmr :: "real \<Rightarrow> SearchResult list \<Rightarrow> SearchResult \<Rightarrow> real" where
  "mmr lambda selected candidate =
     lambda * SearchResult.similarity candidate - (1 - lambda) * diversityPenalty selected candidate"

text \<open>Every price that is present is positive.\<close>

definition positive_prices :: "SearchResult list \<Rightarrow> bool" where
  "positive_prices rs = list_all (\<lambda>r. case price r of None \<Rightarrow> True | Some p \<Rightarrow> 0 < p) rs"

text \<open>A list of scores in descending order.\<close>

definition descending :: "real list \<Rightarrow> bool" where
  "descending xs = sorted_wrt (\<lambda>a b. b \<le> a) xs"

text \<open>
  Section 4.4: the similarities of the retrieved chunks of one product, and the
  arithmetic mean.
\<close>

definition hits_of :: "string \<Rightarrow> (ProductChunk \<times> real) list \<Rightarrow> real list" where
  "hits_of pid rows = map snd (filter (\<lambda>row. ProductChunk.productId (fst row) = pid) rows)"

definition mean :: "real list \<Rightarrow> real" where
  "mean xs = sum_list xs / real (length xs)"

text \<open>
  The chunks that reach the aggregation: the ranking of the matching chunks without its
  first \<^verbatim>\<open>offset\<close> entries, cut to \<^verbatim>\<open>limit * 3\<close> (not cut when that is 0).
\<close>

definition window :: "external \<Rightarrow> Database \<Rightarrow> 'a SearchOptions_scheme \<Rightarrow> (ProductChunk \<times> real) list" where
  "window ext db options =
     sql_limit (limit_or_default options * 3)
       (drop (offset_or_default options)
          (ranked_chunks ext db (generateEmbeddings ext (query options))
             (vector_filterConditions (filters_or_default options))
             (threshold_or_default options)))"





text \<open>
  Section 4.1: the predicate of a filter object on a product. Every field that is present
  is a constraint, an array field is a membership test, the two price bounds are
  inclusive, an empty array or shop id constrains nothing.
\<close>

definition satisfies :: "SearchFilters \<Rightarrow> Product \<Rightarrow> bool" where
  "satisfies f p =
     ((case SearchFilters.shopId f of None \<Rightarrow> True | Some s \<Rightarrow> s = [] \<or> Product.shopId p = s)
      \<and> (case priceRange f of
           None \<Rightarrow> True
         | Some (mn, mx) \<Rightarrow>
             (case mn of None \<Rightarrow> True | Some lo \<Rightarrow> gte (priceNumeric p) lo)
             \<and> (case mx of None \<Rightarrow> True | Some hi \<Rightarrow> lte (priceNumeric p) hi))
      \<and> (case categories f of None \<Rightarrow> True | Some cs \<Rightarrow> cs = [] \<or> inArray (Product.category p) cs)
      \<and> (case brands f of None \<Rightarrow> True | Some bs \<Rightarrow> bs = [] \<or> inArray (Product.brand p) bs)
      \<and> (case SearchFilters.availability f of
           None \<Rightarrow> True | Some as \<Rightarrow> as = [] \<or> inArray (Product.availability p) as)
      \<and> (case productTypes f of
           None \<Rightarrow> True | Some ts \<Rightarrow> ts = [] \<or> inArray (Product.productType p) ts))"

text \<open>A filter object none of whose fields constrains anything.\<close>

definition unconstrained :: "SearchFilters \<Rightarrow> bool" where
  "unconstrained f =
     ((SearchFilters.shopId f = None \<or> SearchFilters.shopId f = Some [])
      \<and> (priceRange f = None \<or> priceRange f = Some (None, None))
      \<and> (categories f = None \<or> categories f = Some [])
      \<and> (brands f = None \<or> brands f = Some [])
      \<and> (SearchFilters.availability f = None \<or> SearchFilters.availability f = Some [])
      \<and> (productTypes f = None \<or> productTypes f = Some []))"

text \<open>
  Section 4.3: a chunk matches the predicate when its product does. The product of a
  chunk is the row of \<^verbatim>\<open>products\<close> with the chunk's \<^verbatim>\<open>product_id\<close>; a chunk whose product
  has no row matches only a predicate that constrains nothing. \<^verbatim>\<open>products.id\<close> is the
  primary key of the table (\<^verbatim>\<open>schema.ts\<close>, line 87).
\<close>

definition product_of :: "Database \<Rightarrow> ProductChunk \<Rightarrow> Product option" where
  "product_of db c = find (\<lambda>p. Product.id p = ProductChunk.productId c) (products db)"

definition predicate_matching :: "SearchFilters \<Rightarrow> Database \<Rightarrow> ProductChunk \<Rightarrow> bool" where
  "predicate_matching f db c =
     (case product_of db c of None \<Rightarrow> unconstrained f | Some p \<Rightarrow> satisfies f p)"

definition primary_key :: "Database \<Rightarrow> bool" where
  "primary_key db = distinct (map Product.id (products db))"

section \<open>Example data\<close>

text \<open>Results as \<^verbatim>\<open>rerankResults\<close> receives them; the fields not named are empty.\<close>

definition example_result :: "string \<Rightarrow> string option \<Rightarrow> string option \<Rightarrow> real option \<Rightarrow> real \<Rightarrow> SearchResult" where
  "example_result pid cat br pr score =
     \<lparr> SearchResult.productId = pid, SearchResult.name = pid, SearchResult.description = None,
       SearchResult.url = pid, price = pr, SearchResult.brand = br, SearchResult.category = cat,
       SearchResult.similarity = score, chunks = None,
       metadata = \<lparr> Metadata.subcategory = None, Metadata.productType = None,
                    Metadata.availability = None \<rparr> \<rparr>"

definition free_A :: SearchResult where
  "free_A = example_result ''A'' (Some ''Bath'') (Some ''Acme'') (Some 0) 0.9"

definition free_B :: SearchResult where
  "free_B = example_result ''B'' (Some ''Garden'') (Some ''Zen'') (Some 0) 0.8"

text \<open>
  Two results of different category and brand, the first with the price -5.00 (a
  deposit paid back), the second with the price 5.00.
\<close>

definition refund_A :: SearchResult where
  "refund_A = example_result ''A'' (Some ''Bath'') (Some ''Acme'') (Some (- 5)) 0.9"

definition refund_B :: SearchResult where
  "refund_B = example_result ''B'' (Some ''Garden'') (Some ''Zen'') (Some 5) 0.8"

definition soap_A :: SearchResult where
  "soap_A = example_result ''A'' (Some ''Bath'') (Some ''Acme'') (Some 10) 0.9"

definition soap_B :: SearchResult where
  "soap_B = example_result ''B'' (Some ''Bath'') (Some ''Acme'') (Some 10) 0.85"

definition soap_C :: SearchResult where
  "soap_C = example_result ''C'' (Some ''Garden'') (Some ''Zen'') None 0.8"

text \<open>
  A store for the examples. Its operators follow PostgreSQL on the inputs used here:
  \<^item> the cosine distance of two unit vectors is 1 minus their inner product;
  \<^item> \<^verbatim>\<open>ILIKE\<close> is \<^verbatim>\<open>LIKE\<close> on the lower-cased texts, where \<^verbatim>\<open>%\<close> stands for any text and
    \<^verbatim>\<open>_\<close> for any character (the escape character is not modelled);
  \<^item> \<^verbatim>\<open>similarity\<close> of the extension \<^verbatim>\<open>pg_trgm\<close> is the number of trigrams the two texts
    share over the number of trigrams of either, the trigrams of a text being those of
    its lower-cased words, each padded with two blanks in front and one behind.
\<close>

definition unit_cosine_distance :: "real list \<Rightarrow> real list \<Rightarrow> real" where
  "unit_cosine_distance a b = 1 - sum_list (map2 (*) a b)"

definition lower :: "char \<Rightarrow> char" where
  "lower c =
     (case map_of (zip ''ABCDEFGHIJKLMNOPQRSTUVWXYZ'' ''abcdefghijklmnopqrstuvwxyz'') c of
        None \<Rightarrow> c | Some l \<Rightarrow> l)"

fun like_match :: "string \<Rightarrow> string \<Rightarrow> bool" where
  "like_match t [] = (t = [])"
| "like_match t (p # ps) =
     (if p = CHR ''%'' then
        like_match t ps \<or> (case t of [] \<Rightarrow> False | _ # ts \<Rightarrow> like_match ts (p # ps))
      else
        (case t of [] \<Rightarrow> False | c # ts \<Rightarrow> (p = CHR ''_'' \<or> c = p) \<and> like_match ts ps))"

definition pg_ilike :: "string \<Rightarrow> string \<Rightarrow> bool" where
  "pg_ilike t pattern = like_match (map lower t) (map lower pattern)"

definition alnum :: "char \<Rightarrow> bool" where
  "alnum c = (c \<in> set ''abcdefghijklmnopqrstuvwxyzABCDEFGHIJKLMNOPQRSTUVWXYZ0123456789'')"

fun words :: "string \<Rightarrow> string \<Rightarrow> string list" where
  "words w [] = (if w = [] then [] else [w])"
| "words w (c # cs) =
     (if alnum c then words (w @ [c]) cs
      else (if w = [] then [] else [w]) @ words [] cs)"

fun windows3 :: "string \<Rightarrow> string list" where
  "windows3 (a # b # c # rest) = [a, b, c] # windows3 (b # c # rest)"
| "windows3 _ = []"

definition trigrams :: "string \<Rightarrow> string list" where
  "trigrams s = remdups (concat (map (\<lambda>w. windows3 (''  '' @ w @ '' '')) (words [] (map lower s))))"

definition pg_trgm_similarity :: "string \<Rightarrow> string \<Rightarrow> real" where
  "pg_trgm_similarity a b =
     (let ta = trigrams a; tb = trigrams b;
          shared = length (filter (\<lambda>t. t \<in> set tb) ta);
          total = length ta + length tb - shared
      in if total = 0 then 0 else real shared / real total)"

definition example_external :: external where
  "example_external =
     \<lparr> generateEmbeddings = (\<lambda>q. [1, 0]),
       cosine_distance = unit_cosine_distance,
       ilike = pg_ilike,
       trgm_similarity = pg_trgm_similarity \<rparr>"

text \<open>
  Three products. \<open>A\<close> and \<open>B\<close> share category, brand and price. The embeddings are
  unit vectors; against the query embedding \<open>[1, 0]\<close> the chunks have the similarities
  1 and 0.8 (\<open>A\<close>), 0.96 (\<open>B\<close>) and 0.6 (\<open>C\<close>).
\<close>

definition example_product ::
  "string \<Rightarrow> string \<Rightarrow> string option \<Rightarrow> string option \<Rightarrow> real option \<Rightarrow> Product" where
  "example_product pid nm cat br pr =
     \<lparr> Product.id = pid, Product.shopId = ''shop-1'', Product.url = pid, Product.name = nm,
       Product.description = None, Product.productType = None, Product.category = cat,
       Product.subcategory = None, priceNumeric = pr, Product.availability = None,
       Product.brand = br \<rparr>"

definition example_chunk :: "string \<Rightarrow> string \<Rightarrow> real list \<Rightarrow> ProductChunk" where
  "example_chunk cid pid e =
     \<lparr> ProductChunk.id = cid, ProductChunk.productId = pid, ProductChunk.chunkType = Some ''main'',
       chunkContent = cid, embedding = Some e, ProductChunk.position = Some 0 \<rparr>"

definition example_db :: Database where
  "example_db =
     \<lparr> products =
         [example_product ''A'' ''Soap Classic'' (Some ''Bath'') (Some ''Acme'') (Some 10),
          example_product ''B'' ''Soap Fresh'' (Some ''Bath'') (Some ''Acme'') (Some 10),
          example_product ''C'' ''Plant Wash'' (Some ''Garden'') (Some ''Zen'') None],
       productChunks =
         [example_chunk ''a1'' ''A'' [1, 0],
          example_chunk ''a2'' ''A'' [0.8, 0.6],
          example_chunk ''b1'' ''B'' [0.96, 0.28],
          example_chunk ''c1'' ''C'' [0.6, 0.8]] \<rparr>"

text \<open>The options \<^verbatim>\<open>{ query, rerank: true }\<close>.\<close>

definition example_options :: "string \<Rightarrow> HybridOptions" where
  "example_options q =
     \<lparr> query = q, limit = None, offset = None, threshold = None, filters = None,
       includeChunks = None, rerank = Some True, vectorWeight = None, keywordWeight = None \<rparr>"

text \<open>The example store with one more chunk, of a product \<open>Z\<close> that has no row.\<close>

definition orphan_db :: Database where
  "orphan_db = example_db\<lparr> productChunks := example_chunk ''z1'' ''Z'' [1, 0] # productChunks example_db \<rparr>"

text \<open>
  A store whose only product has two chunks that point away from the query (similarities
  -0.6 and -0.8), searched with the threshold -1.
\<close>

definition negative_db :: Database where
  "negative_db =
     \<lparr> products = [example_product ''N'' ''Night Cream'' (Some ''Care'') (Some ''Luna'') (Some 20)],
       productChunks = [example_chunk ''n1'' ''N'' [- 0.6, 0.8],
                        example_chunk ''n2'' ''N'' [- 0.8, 0.6]] \<rparr>"

definition negative_options :: SearchOptions where
  "negative_options =
     \<lparr> query = ''soap'', limit = None, offset = None, threshold = Some (- 1), filters = None,
       includeChunks = None, rerank = None \<rparr>"




text \<open>
  Two products for the query \<^verbatim>\<open>soapbar\<close>: the name of \<open>X\<close> does not contain the query and
  has the trigram similarity 6/11 to it, the name of \<open>Y\<close> contains it and has the
  similarity 8/23.
\<close>

definition keyword_db :: Database where
  "keyword_db =
     \<lparr> products = [example_product ''X'' ''soap bar'' None None None,
                   example_product ''Y'' ''Soapbar Deluxe Edition'' None None None],
       productChunks = [] \<rparr>"


text \<open>
  A store with two products whose price is 0.00, each with one chunk (similarities 1 and
  0.8).
\<close>

definition free_db :: Database where
  "free_db =
     \<lparr> products =
         [example_product ''F'' ''Sample Sachet'' (Some ''Bath'') (Some ''Acme'') (Some 0),
          example_product ''G'' ''Refill Coupon'' (Some ''Garden'') (Some ''Zen'') (Some 0)],
       productChunks =
         [example_chunk ''f1'' ''F'' [1, 0],
          example_chunk ''g1'' ''G'' [0.8, 0.6]] \<rparr>"

section \<open>Properties of \<^verbatim>\<open>rerankResults\<close>\<close>

subsection \<open>Scores on positive prices\<close>

lemma price_term_bounds:
  fixes a b :: real
  assumes "0 < a" "0 < b"
  shows "0 \<le> 1 - \<bar>a - b\<bar> / max a b"
proof -
  have "\<bar>a - b\<bar> \<le> max a b" using assms by (simp add: max_def abs_if)
  moreover have "0 < max a b" using assms by simp
  ultimately have "\<bar>a - b\<bar> / max a b \<le> 1" by (simp add: divide_le_eq)
  then show ?thesis by simp
qed

lemma pair_similarity_Fin:
  assumes "case price s of None \<Rightarrow> True | Some p \<Rightarrow> 0 < p"
      and "case price c of None \<Rightarrow> True | Some p \<Rightarrow> 0 < p"
  shows "pair_similarity s c = Fin (pairwise_similarity s c)"
  using assms
  by (auto simp: pair_similarity_def pairwise_similarity_def js_sub_def Let_def max_def
      split: option.splits)

lemma pairwise_similarity_nonneg:
  assumes "case price s of None \<Rightarrow> True | Some p \<Rightarrow> 0 < p"
      and "case price c of None \<Rightarrow> True | Some p \<Rightarrow> 0 < p"
  shows "0 \<le> pairwise_similarity s c"
proof (cases "price s")
  case None
  then show ?thesis by (simp add: pairwise_similarity_def)
next
  case (Some a)
  show ?thesis
  proof (cases "price c")
    case None
    then show ?thesis by (simp add: pairwise_similarity_def split: option.splits)
  next
    case (Some b)
    with \<open>price s = Some a\<close> assms have "0 \<le> 1 - \<bar>a - b\<bar> / max a b"
      by (simp add: price_term_bounds)
    then have "0 \<le> 0.4 * (1 - \<bar>a - b\<bar> / max a b)" by simp
    with Some \<open>price s = Some a\<close> show ?thesis
      by (simp add: pairwise_similarity_def)
  qed
qed

lemma foldl_js_max_Fin:
  "foldl (\<lambda>m x. js_max m (Fin (f x))) (Fin a) xs = Fin (Max (insert a (f ` set xs)))"
proof (induction xs arbitrary: a)
  case Nil
  then show ?case by simp
next
  case (Cons x xs)
  have "Max (insert (max a (f x)) (f ` set xs)) = Max (insert a (insert (f x) (f ` set xs)))"
    by (cases "set xs = {}") (simp_all add: max.assoc)
  with Cons show ?case by simp
qed

lemma maxSimilarityToSelected_Fin:
  assumes "positive_prices reranked" "case price c of None \<Rightarrow> True | Some p \<Rightarrow> 0 < p"
  shows "maxSimilarityToSelected reranked c =
           Fin (Max (insert 0 ((\<lambda>s. pairwise_similarity s c) ` set reranked)))"
proof -
  have "foldl (\<lambda>m s. js_max m (pair_similarity s c)) (Fin 0) reranked
        = foldl (\<lambda>m s. js_max m (Fin (pairwise_similarity s c))) (Fin 0) reranked"
    using assms(1)
  proof (induction reranked rule: rev_induct)
    case Nil
    then show ?case by simp
  next
    case (snoc x xs)
    then show ?case using assms(2)
      by (simp add: positive_prices_def pair_similarity_Fin)
  qed
  then show ?thesis by (simp add: maxSimilarityToSelected_def foldl_js_max_Fin)
qed

lemma maxSimilarityToSelected_penalty:
  assumes "positive_prices reranked" "case price c of None \<Rightarrow> True | Some p \<Rightarrow> 0 < p"
      and "reranked \<noteq> []"
  shows "maxSimilarityToSelected reranked c = Fin (diversityPenalty reranked c)"
proof -
  let ?S = "(\<lambda>s. pairwise_similarity s c) ` set reranked"
  have fin: "finite ?S" and ne: "?S \<noteq> {}" using assms(3) by simp_all
  have "\<forall>x \<in> ?S. 0 \<le> x"
    using assms(1,2) by (auto simp: positive_prices_def list_all_iff pairwise_similarity_nonneg)
  then have "0 \<le> Max ?S" using fin ne by (meson Max_in)
  then have "Max (insert 0 ?S) = Max ?S" using fin ne by (simp add: max_def)
  then show ?thesis using assms by (simp add: maxSimilarityToSelected_Fin diversityPenalty_def)
qed

lemma mmrScore_Fin:
  assumes "positive_prices reranked" "case price c of None \<Rightarrow> True | Some p \<Rightarrow> 0 < p"
      and "reranked \<noteq> []"
  shows "mmrScore lambda reranked c = Fin (mmr lambda reranked c)"
  using assms by (simp add: mmrScore_def mmr_def maxSimilarityToSelected_penalty js_sub_def)

subsection \<open>The selection of the best candidate\<close>

lemma select_best_Fin:
  assumes "\<forall>c \<in> set cands. mmrScore lambda rr c = Fin (f c)"
  shows "\<exists>m k. select_best lambda rr cands i (Fin b, Some j) = (Fin m, Some k)
           \<and> ((k = j \<and> m = b \<and> (\<forall>c \<in> set cands. f c \<le> b))
              \<or> (i \<le> k \<and> k < i + length cands \<and> m = f (cands ! (k - i)) \<and> b < m
                 \<and> (\<forall>l < length cands. f (cands ! l) \<le> m)
                 \<and> (\<forall>l < k - i. f (cands ! l) < m)))"
  using assms
proof (induction cands arbitrary: i b j)
  case Nil
  then show ?case by simp
next
  case (Cons c rest)
  have sc: "mmrScore lambda rr c = Fin (f c)" using Cons.prems by simp
  have rest: "\<forall>c \<in> set rest. mmrScore lambda rr c = Fin (f c)" using Cons.prems by simp
  show ?case
  proof (cases "b < f c")
    case True
    from Cons.IH[OF rest, of "Suc i" "f c" i] obtain m k where
      eq: "select_best lambda rr rest (Suc i) (Fin (f c), Some i) = (Fin m, Some k)" and
      alt: "(k = i \<and> m = f c \<and> (\<forall>x \<in> set rest. f x \<le> f c))
            \<or> (Suc i \<le> k \<and> k < Suc i + length rest \<and> m = f (rest ! (k - Suc i)) \<and> f c < m
                 \<and> (\<forall>l < length rest. f (rest ! l) \<le> m)
                 \<and> (\<forall>l < k - Suc i. f (rest ! l) < m))"
      by blast
    have step: "select_best lambda rr (c # rest) i (Fin b, Some j) = (Fin m, Some k)"
      using True sc eq by simp
    from alt show ?thesis
    proof
      assume a: "k = i \<and> m = f c \<and> (\<forall>x \<in> set rest. f x \<le> f c)"
      then have "\<forall>l < length (c # rest). f ((c # rest) ! l) \<le> m"
        by (auto simp: nth_Cons')
      with a True step show ?thesis by auto
    next
      assume a: "Suc i \<le> k \<and> k < Suc i + length rest \<and> m = f (rest ! (k - Suc i)) \<and> f c < m
                 \<and> (\<forall>l < length rest. f (rest ! l) \<le> m)
                 \<and> (\<forall>l < k - Suc i. f (rest ! l) < m)"
      then have k: "k - i = Suc (k - Suc i)" by arith
      have 1: "\<forall>l < length (c # rest). f ((c # rest) ! l) \<le> m"
        using a by (auto simp: nth_Cons' less_Suc_eq_0_disj)
      have 2: "\<forall>l < k - i. f ((c # rest) ! l) < m"
        using a k by (auto simp: nth_Cons' less_Suc_eq_0_disj)
      have 3: "m = f ((c # rest) ! (k - i))" using a k by simp
      have 4: "b < m" using a True by simp
      have 5: "i \<le> k \<and> k < i + length (c # rest)" using a by simp
      from step 1 2 3 4 5 show ?thesis by blast
    qed
  next
    case False
    from Cons.IH[OF rest, of "Suc i" b j] obtain m k where
      eq: "select_best lambda rr rest (Suc i) (Fin b, Some j) = (Fin m, Some k)" and
      alt: "(k = j \<and> m = b \<and> (\<forall>c \<in> set rest. f c \<le> b))
            \<or> (Suc i \<le> k \<and> k < Suc i + length rest \<and> m = f (rest ! (k - Suc i)) \<and> b < m
                 \<and> (\<forall>l < length rest. f (rest ! l) \<le> m)
                 \<and> (\<forall>l < k - Suc i. f (rest ! l) < m))"
      by blast
    have step: "select_best lambda rr (c # rest) i (Fin b, Some j) = (Fin m, Some k)"
      using False sc eq by simp
    from alt show ?thesis
    proof
      assume a: "k = j \<and> m = b \<and> (\<forall>c \<in> set rest. f c \<le> b)"
      with False step show ?thesis by auto
    next
      assume a: "Suc i \<le> k \<and> k < Suc i + length rest \<and> m = f (rest ! (k - Suc i)) \<and> b < m
                 \<and> (\<forall>l < length rest. f (rest ! l) \<le> m)
                 \<and> (\<forall>l < k - Suc i. f (rest ! l) < m)"
      then have k: "k - i = Suc (k - Suc i)" by arith
      have 1: "\<forall>l < length (c # rest). f ((c # rest) ! l) \<le> m"
        using a False by (auto simp: nth_Cons' less_Suc_eq_0_disj)
      have 2: "\<forall>l < k - i. f ((c # rest) ! l) < m"
        using a k False by (auto simp: nth_Cons' less_Suc_eq_0_disj)
      have 3: "m = f ((c # rest) ! (k - i))" using a k by simp
      have 5: "i \<le> k \<and> k < i + length (c # rest)" using a by simp
      from step 1 2 3 5 a show ?thesis by blast
    qed
  qed
qed

lemma select_best_argmax:
  assumes "cands \<noteq> []" and "\<forall>c \<in> set cands. mmrScore lambda rr c = Fin (f c)"
  shows "\<exists>k < length cands.
           select_best lambda rr cands 0 (NInf, None) = (Fin (f (cands ! k)), Some k)
           \<and> (\<forall>j < length cands. f (cands ! j) \<le> f (cands ! k))
           \<and> (\<forall>j < k. f (cands ! j) < f (cands ! k))"
proof -
  from assms(1) obtain c rest where cands: "cands = c # rest" by (cases cands) auto
  have sc: "mmrScore lambda rr c = Fin (f c)" using assms(2) cands by simp
  have rest: "\<forall>c \<in> set rest. mmrScore lambda rr c = Fin (f c)" using assms(2) cands by simp
  from select_best_Fin[OF rest, of 1 "f c" 0] obtain m k where
    eq: "select_best lambda rr rest 1 (Fin (f c), Some 0) = (Fin m, Some k)" and
    alt: "(k = 0 \<and> m = f c \<and> (\<forall>x \<in> set rest. f x \<le> f c))
            \<or> (1 \<le> k \<and> k < 1 + length rest \<and> m = f (rest ! (k - 1)) \<and> f c < m
                 \<and> (\<forall>l < length rest. f (rest ! l) \<le> m)
                 \<and> (\<forall>l < k - 1. f (rest ! l) < m))"
    by blast
  have step: "select_best lambda rr cands 0 (NInf, None) = (Fin m, Some k)"
    using cands sc eq by simp
  from alt show ?thesis
  proof
    assume a: "k = 0 \<and> m = f c \<and> (\<forall>x \<in> set rest. f x \<le> f c)"
    then have "\<forall>j < length cands. f (cands ! j) \<le> f (cands ! 0)"
      unfolding cands by (auto simp: nth_Cons')
    with a step cands show ?thesis by auto
  next
    assume a: "1 \<le> k \<and> k < 1 + length rest \<and> m = f (rest ! (k - 1)) \<and> f c < m
                 \<and> (\<forall>l < length rest. f (rest ! l) \<le> m)
                 \<and> (\<forall>l < k - 1. f (rest ! l) < m)"
    then have m: "m = f (cands ! k)" unfolding cands by (simp add: nth_Cons')
    have 1: "\<forall>j < length cands. f (cands ! j) \<le> m"
      unfolding cands using a by (auto simp: nth_Cons' less_Suc_eq_0_disj)
    have 2: "\<forall>j < k. f (cands ! j) < m"
      unfolding cands using a by (auto simp: nth_Cons' less_Suc_eq_0_disj)
    have 3: "k < length cands" unfolding cands using a by simp
    from step m 1 2 3 show ?thesis by blast
  qed
qed

lemma select_best_index:
  "snd (select_best lambda rr cands i (bs, bi)) = Some k
   \<Longrightarrow> bi = Some k \<or> (i \<le> k \<and> k < i + length cands)"
proof (induction cands arbitrary: i bs bi)
  case Nil
  then show ?case by simp
next
  case (Cons c rest)
  show ?case
  proof (cases "js_gt (mmrScore lambda rr c) bs")
    case True
    with Cons.prems have "snd (select_best lambda rr rest (Suc i) (mmrScore lambda rr c, Some i)) = Some k"
      by simp
    from Cons.IH[OF this] show ?thesis by auto
  next
    case False
    with Cons.prems have "snd (select_best lambda rr rest (Suc i) (bs, bi)) = Some k"
      by simp
    from Cons.IH[OF this] show ?thesis by auto
  qed
qed

lemma mset_splice1:
  "k < length xs \<Longrightarrow> add_mset (xs ! k) (mset (splice1 xs k)) = mset xs"
proof -
  assume k: "k < length xs"
  then have "xs = take k xs @ xs ! k # drop (Suc k) xs" by (simp add: id_take_nth_drop)
  then have "mset xs = mset (take k xs @ xs ! k # drop (Suc k) xs)" by simp
  then show ?thesis by (simp add: splice1_def)
qed

lemma set_splice1: "k < length xs \<Longrightarrow> set (splice1 xs k) \<subseteq> set xs"
  by (auto simp: splice1_def dest: in_set_takeD in_set_dropD)

lemma rerank_loop_sub:
  "mset (rerank_loop lambda n reranked remaining) \<subseteq># mset reranked + mset remaining"
proof (induction lambda n reranked remaining rule: rerank_loop.induct)
  case (1 lambda n reranked remaining)
  show ?case
  proof (cases "remaining \<noteq> [] \<and> length reranked < n")
    case False
    then show ?thesis by (subst rerank_loop.simps) auto
  next
    case True
    show ?thesis
    proof (cases "snd (select_best lambda reranked remaining 0 (NInf, None))")
      case None
      with True show ?thesis by (subst rerank_loop.simps) simp
    next
      case (Some k)
      from select_best_index[OF Some] have k: "k < length remaining" by simp
      have "mset (rerank_loop lambda n (reranked @ [remaining ! k]) (splice1 remaining k))
            \<subseteq># mset (reranked @ [remaining ! k]) + mset (splice1 remaining k)"
        using "1.IH"[OF True Some] .
      also have "\<dots> = mset reranked + mset remaining"
        using mset_splice1[OF k] by simp
      finally show ?thesis using True Some by (subst rerank_loop.simps) simp
    qed
  qed
qed

lemma rerank_loop_perm:
  assumes "positive_prices (reranked @ remaining)" "reranked \<noteq> []"
      and "n = length reranked + length remaining"
  shows "mset (rerank_loop lambda n reranked remaining) = mset reranked + mset remaining"
  using assms
proof (induction lambda n reranked remaining rule: rerank_loop.induct)
  case (1 lambda n reranked remaining)
  show ?case
  proof (cases "remaining = []")
    case True
    then show ?thesis by (subst rerank_loop.simps) simp
  next
    case False
    then have cond: "remaining \<noteq> [] \<and> length reranked < n" using "1.prems" by simp
    have pr: "positive_prices reranked" using "1.prems" by (simp add: positive_prices_def)
    have "\<forall>c \<in> set remaining. mmrScore lambda reranked c = Fin (mmr lambda reranked c)"
      using "1.prems" pr by (auto simp: positive_prices_def list_all_iff intro!: mmrScore_Fin)
    from select_best_argmax[OF False this] obtain k where
      k: "k < length remaining" and
      sel: "snd (select_best lambda reranked remaining 0 (NInf, None)) = Some k"
      by auto
    have sub: "set (splice1 remaining k) \<subseteq> set remaining" using k by (rule set_splice1)
    have pp: "positive_prices ((reranked @ [remaining ! k]) @ splice1 remaining k)"
      using "1.prems"(1) k sub by (auto simp: positive_prices_def list_all_iff)
    have len: "n = length (reranked @ [remaining ! k]) + length (splice1 remaining k)"
      using "1.prems"(3) k by (simp add: splice1_def)
    have "mset (rerank_loop lambda n (reranked @ [remaining ! k]) (splice1 remaining k))
          = mset (reranked @ [remaining ! k]) + mset (splice1 remaining k)"
      using "1.IH"[OF cond sel pp _ len] by simp
    also have "\<dots> = mset reranked + mset remaining"
      using mset_splice1[OF k] by simp
    finally show ?thesis using cond sel by (subst rerank_loop.simps) simp
  qed
qed

lemma rerankResults_perm:
  "positive_prices results \<Longrightarrow> mset (rerankResults q results lambda) = mset results"
  by (cases results) (simp_all add: rerankResults_def rerank_loop_perm)

lemma rerankResults_sub: "mset (rerankResults q results lambda) \<subseteq># mset results"
proof (cases results)
  case Nil
  then show ?thesis by (simp add: rerankResults_def)
next
  case (Cons r rs)
  then show ?thesis using rerank_loop_sub[of lambda "length results" "[r]" rs]
    by (simp add: rerankResults_def)
qed

subsection \<open>The reranker as a permutation\<close>

text \<open>
  The output never holds a result that the input does not hold (\<open>rerankResults_sub\<close>), and
  it is a permutation of the input when every price that is present is positive
  (\<open>rerankResults_perm\<close>).
\<close>

text \<open>
  Claim C3: for every input list, the output of the MMR reranker is a permutation of the
  input, with the same length and no result dropped.

  The code does not achieve this on two results that both cost 0.00. Both prices are
  truthy texts, so line 283 divides \<^verbatim>\<open>priceDiff = 0\<close> by \<^verbatim>\<open>maxPrice = 0\<close>; the quotient is
  \<open>NaN\<close>, and so are the pairwise similarity, \<^verbatim>\<open>Math.max(0, NaN)\<close> and \<^verbatim>\<open>mmrScore\<close>. The
  test \<^verbatim>\<open>mmrScore > bestScore\<close> of line 291 is false, \<^verbatim>\<open>bestIndex\<close> stays \<^verbatim>\<open>-1\<close>, and line
  301 leaves the loop with the second result still in \<^verbatim>\<open>remaining\<close>. Through
  \<^verbatim>\<open>vectorSearch\<close>: on a store with two products priced 0.00 the search returns both
  without \<^verbatim>\<open>rerank\<close> and only the first with it.
\<close>

theorem rerankResults_drops_zero_priced:
  "rerankResults ''soap'' [free_A, free_B] 0.7 = [free_A]
   \<and> mset (rerankResults ''soap'' [free_A, free_B] 0.7) \<noteq> mset [free_A, free_B]
   \<and> map (\<lambda>r. (SearchResult.productId r, price r))
         (vectorSearch example_external free_db ((example_options ''seife'')\<lparr> rerank := None \<rparr>))
       = [(''F'', Some 0), (''G'', Some 0)]
   \<and> map SearchResult.productId
         (vectorSearch example_external free_db (example_options ''seife''))
       = [''F'']"
  by code_simp

subsection \<open>One step of the selection\<close>

lemma rerankResults_example:
  "rerankResults ''soap'' [soap_A, soap_B, soap_C] 0.7 = [soap_A, soap_C, soap_B]"
  by (simp add: rerankResults_def rerank_loop.simps mmrScore_def maxSimilarityToSelected_def
      pair_similarity_def soap_A_def soap_B_def soap_C_def example_result_def js_sub_def
      Let_def splice1_def)

text \<open>
  A step is one turn of \<open>rerank_loop\<close>: in a state with selected results \<open>reranked\<close> and
  candidates \<open>remaining\<close>, the loop goes on with the candidate at index \<open>k\<close> appended and
  removed. When every price that is present is positive, the penalty of every candidate
  is the largest pairwise similarity to a selected result, and \<open>k\<close> maximises the score.
\<close>

lemma selection_step_positive_prices:
  assumes "positive_prices (reranked @ remaining)" "reranked \<noteq> []" "remaining \<noteq> []"
      and "length reranked < n"
  shows "\<exists>k < length remaining.
           (\<forall>c \<in> set remaining.
              maxSimilarityToSelected reranked c = Fin (diversityPenalty reranked c)
              \<and> mmrScore 0.7 reranked c
                  = Fin (0.7 * SearchResult.similarity c - 0.3 * diversityPenalty reranked c))
           \<and> (\<forall>j < length remaining.
                mmr 0.7 reranked (remaining ! j) \<le> mmr 0.7 reranked (remaining ! k))
           \<and> rerank_loop 0.7 n reranked remaining
               = rerank_loop 0.7 n (reranked @ [remaining ! k]) (splice1 remaining k)"
proof -
  have pr: "positive_prices reranked" using assms(1) by (simp add: positive_prices_def)
  have pc: "\<forall>c \<in> set remaining. case price c of None \<Rightarrow> True | Some p \<Rightarrow> 0 < p"
    using assms(1) by (simp add: positive_prices_def list_all_iff)
  have sc: "\<forall>c \<in> set remaining. mmrScore 0.7 reranked c = Fin (mmr 0.7 reranked c)"
    using pr pc assms(2) by (simp add: mmrScore_Fin)
  from select_best_argmax[OF assms(3) sc] obtain k where
    k: "k < length remaining" and
    sel: "select_best 0.7 reranked remaining 0 (NInf, None)
            = (Fin (mmr 0.7 reranked (remaining ! k)), Some k)" and
    mx: "\<forall>j < length remaining. mmr 0.7 reranked (remaining ! j) \<le> mmr 0.7 reranked (remaining ! k)"
    by blast
  have 1: "\<forall>c \<in> set remaining.
              maxSimilarityToSelected reranked c = Fin (diversityPenalty reranked c)
              \<and> mmrScore 0.7 reranked c
                  = Fin (0.7 * SearchResult.similarity c - 0.3 * diversityPenalty reranked c)"
    using pr pc assms(2) sc by (simp add: maxSimilarityToSelected_penalty mmr_def)
  have 2: "rerank_loop 0.7 n reranked remaining
               = rerank_loop 0.7 n (reranked @ [remaining ! k]) (splice1 remaining k)"
    using assms(3,4) sel by (subst rerank_loop.simps) simp
  from k 1 mx 2 show ?thesis by blast
qed

text \<open>
  Claim C6: at every selection step, the diversity penalty of every remaining candidate
  is the largest pairwise similarity to an already selected result (0.3 for the same
  category, 0.3 for the same brand, \<open>0.4 * (1 - |a - b| / max a b)\<close> when both prices are
  present), and the candidate with the largest
  \<open>0.7 * relevance - 0.3 * diversityPenalty\<close> is appended next.

  The code does not achieve this at every step. With a selected result and a candidate
  that both cost 0.00, line 283 divides 0 by 0: the pairwise similarity, the penalty and
  the score of the candidate are \<open>NaN\<close>, the test of line 291 fails for the one candidate
  there is, and the step appends nothing (line 301). With a selected result of price
  -5.00 and a candidate of price 5.00, of different category and brand, the one pairwise
  similarity is \<open>0.4 * (1 - 10 / 5) = -0.4\<close>, which is also the largest; the penalty of
  the code is 0, the value the running maximum starts from (line 274).
\<close>

theorem mmr_step_penalty_failures:
  "pair_similarity free_A free_B = NaN
   \<and> maxSimilarityToSelected [free_A] free_B = NaN
   \<and> mmrScore 0.7 [free_A] free_B = NaN
   \<and> select_best 0.7 [free_A] [free_B] 0 (NInf, None) = (NInf, None)
   \<and> rerank_loop 0.7 2 [free_A] [free_B] = [free_A]
   \<and> pair_similarity refund_A refund_B = Fin (- 0.4)
   \<and> diversityPenalty [refund_A] refund_B = - 0.4
   \<and> maxSimilarityToSelected [refund_A] refund_B = Fin 0"
  by code_simp

section \<open>Properties of \<^verbatim>\<open>hybridSearch\<close>\<close>

subsection \<open>The order of the fused list\<close>

lemma descending_sort_key: "descending (map f (sort_key (\<lambda>x. - f x) xs))"
proof -
  have "sorted (map (\<lambda>x. - f x) (sort_key (\<lambda>x. - f x) xs))" by (rule sorted_sort_key)
  then show ?thesis by (simp add: descending_def sorted_wrt_map)
qed


lemma descending_drop: "descending xs \<Longrightarrow> descending (drop n xs)"
  unfolding descending_def by (rule sorted_wrt_drop)



subsection \<open>The error of the keyword search\<close>

lemma order_by_similarity_unresolved: "\<not> order_by_resolves ''similarity''"
  by (simp add: order_by_resolves_def keyword_select_names_def products_columns_def)

lemma keyword_rows_error:
  "keyword_rows ext db q conds lmt off = Inl (UndefinedColumn ''similarity'')"
  by (simp add: keyword_rows_def order_by_similarity_unresolved)

text \<open>
  Claim C2: with \<^verbatim>\<open>rerank\<close> set to true, \<^verbatim>\<open>hybridSearch\<close> returns its fused list, cut to the
  limit, reordered by the MMR reranker.

  The code returns no list. \<^verbatim>\<open>hybridSearch\<close> awaits \<^verbatim>\<open>keywordSearch\<close>, whose statement
  orders by the name \<^verbatim>\<open>similarity\<close> (line 435); no column of the statement has that name,
  the store answers with its error 42703, and \<^verbatim>\<open>hybridSearch\<close> ends with that error before
  line 334, for every store and for all options. The lines behind it would not rerank
  either: the vector search is called with \<^verbatim>\<open>rerank: false\<close> (line 328) and the fusion
  sorts by the fused score, so that the vector results \<open>A, B, C\<close> of the example store come
  out of the fusion as \<open>A, B, C\<close>, where \<^verbatim>\<open>vectorSearch\<close>, which honours the option (line
  237), returns the MMR order \<open>A, C, B\<close>.
\<close>

theorem hybridSearch_rerank_raises:
  "hybridSearch ext db (options\<lparr> rerank := Some True \<rparr>) = Inl (UndefinedColumn ''similarity'')
   \<and> rerank (example_options ''seife'') = Some True
   \<and> hybridSearch example_external example_db (example_options ''seife'')
       = Inl (UndefinedColumn ''similarity'')
   \<and> map SearchResult.productId
         (vectorSearch example_external example_db (example_options ''seife''))
       = [''A'', ''C'', ''B'']
   \<and> map SearchResult.productId
         (vectorSearch example_external example_db
            ((example_options ''seife'')\<lparr> rerank := Some False \<rparr>))
       = [''A'', ''B'', ''C'']
   \<and> map SearchResult.productId
         (fusion (example_options ''seife'')
            (vectorSearch example_external example_db
               ((example_options ''seife'')\<lparr> rerank := Some False \<rparr>)) [])
       = [''A'', ''B'', ''C'']"
proof -
  have 1: "hybridSearch ext db (options\<lparr> rerank := Some True \<rparr>)
           = Inl (UndefinedColumn ''similarity'')"
    by (simp add: hybridSearch_def keywordSearch_def keyword_rows_error)
  have 2: "rerank (example_options ''seife'') = Some True"
    by (simp add: example_options_def)
  have 3: "hybridSearch example_external example_db (example_options ''seife'')
           = Inl (UndefinedColumn ''similarity'')"
    by (simp add: hybridSearch_def keywordSearch_def keyword_rows_error)
  have 4: "map SearchResult.productId
         (vectorSearch example_external example_db (example_options ''seife''))
       = [''A'', ''C'', ''B'']"
    by code_simp
  have 5: "map SearchResult.productId
         (vectorSearch example_external example_db
            ((example_options ''seife'')\<lparr> rerank := Some False \<rparr>))
       = [''A'', ''B'', ''C'']"
    by code_simp
  have 6: "map SearchResult.productId
         (fusion (example_options ''seife'')
            (vectorSearch example_external example_db
               ((example_options ''seife'')\<lparr> rerank := Some False \<rparr>)) [])
       = [''A'', ''B'', ''C'']"
    by code_simp
  from 1 2 3 4 5 6 show ?thesis by (intro conjI)
qed

subsection \<open>The fusion of the two score maps\<close>
















section \<open>Properties of the aggregation in \<^verbatim>\<open>vectorSearch\<close>\<close>

lemma aggregate_snoc: "aggregate (rows @ [row]) = aggregate_step (aggregate rows) row"
  by (simp add: aggregate_def)

lemma aggregate_keys:
  "fst ` set (aggregate rows) = (\<lambda>row. ProductChunk.productId (fst row)) ` set rows"
proof (induction rows rule: rev_induct)
  case Nil
  then show ?case by (simp add: aggregate_def)
next
  case (snoc row rows)
  then show ?case
    by (simp add: aggregate_snoc aggregate_step_def Let_def dom_update image_Un)
qed

lemma aggregate_distinct: "distinct (map fst (aggregate rows))"
proof (induction rows rule: rev_induct)
  case Nil
  then show ?case by (simp add: aggregate_def)
next
  case (snoc row rows)
  then show ?case
    by (simp add: aggregate_snoc aggregate_step_def Let_def distinct_update)
qed

lemma foldl_add: "foldl (\<lambda>sum c. sum + f c) (a::real) xs = a + sum_list (map f xs)"
  by (induction xs arbitrary: a) simp_all

lemma similarity_to_ChunkResult [simp]: "ChunkResult.similarity (to_ChunkResult row) = snd row"
  by (simp add: to_ChunkResult_def)

lemma Max_insert_0:
  fixes S :: "real set"
  assumes "finite S"
  shows "max (Max (insert 0 S)) x = Max (insert 0 (insert x S))"
proof -
  have "Max (insert x (insert 0 S)) = max x (Max (insert 0 S))"
    using assms by (intro Max_insert) simp_all
  then show ?thesis by (simp add: insert_commute max.commute)
qed

lemma aggregate_lookup:
  "map_of (aggregate rows) pid =
     (let rs = filter (\<lambda>row. ProductChunk.productId (fst row) = pid) rows
      in if rs = [] then None
         else Some (Max (insert 0 (snd ` set rs)), mean (map snd rs), map to_ChunkResult rs))"
proof (induction rows rule: rev_induct)
  case Nil
  then show ?case by (simp add: aggregate_def)
next
  case (snoc row rows)
  let ?rs = "filter (\<lambda>row. ProductChunk.productId (fst row) = pid) rows"
  show ?case
  proof (cases "ProductChunk.productId (fst row) = pid")
    case False
    then show ?thesis using snoc
      by (simp add: aggregate_snoc aggregate_step_def Let_def update_conv')
  next
    case True
    show ?thesis
    proof (cases "?rs = []")
      case True
      with \<open>ProductChunk.productId (fst row) = pid\<close> snoc show ?thesis
        by (simp add: aggregate_snoc aggregate_step_def Let_def update_conv' mean_def)
    next
      case False
      have "max (Max (insert 0 (snd ` set ?rs))) (snd row) = Max (insert 0 (insert (snd row) (snd ` set ?rs)))"
        by (rule Max_insert_0) simp
      with False \<open>ProductChunk.productId (fst row) = pid\<close> snoc show ?thesis
        by (simp add: aggregate_snoc aggregate_step_def Let_def update_conv' mean_def foldl_add comp_def)
    qed
  qed
qed

lemma aggregate_scores:
  assumes "pid \<in> (\<lambda>row. ProductChunk.productId (fst row)) ` set rows"
  shows "\<exists>cs. map_of (aggregate rows) pid
                = Some (max 0 (Max (set (hits_of pid rows))), mean (hits_of pid rows), cs)"
proof -
  let ?rs = "filter (\<lambda>row. ProductChunk.productId (fst row) = pid) rows"
  from assms obtain row where "row \<in> set rows" "ProductChunk.productId (fst row) = pid"
    by auto
  then have mem: "row \<in> set ?rs" by simp
  then have "0 < length ?rs" by (rule length_pos_if_in_set)
  then have ne: "?rs \<noteq> []" by auto
  have "snd row \<in> snd ` set ?rs" using mem by (rule imageI)
  then have ne': "snd ` set ?rs \<noteq> {}" by (metis empty_iff)
  have fin: "finite (snd ` set ?rs)" by simp
  have "Max (insert 0 (snd ` set ?rs)) = max 0 (Max (snd ` set ?rs))"
    by (rule Max_insert[OF fin ne'])
  with ne show ?thesis using aggregate_lookup[of rows pid]
    by (simp add: hits_of_def Let_def)
qed

lemma aggregate_scores_nonneg:
  assumes "pid \<in> (\<lambda>row. ProductChunk.productId (fst row)) ` set rows"
      and "\<exists>s \<in> set (hits_of pid rows). 0 \<le> s"
  shows "\<exists>cs. map_of (aggregate rows) pid
                = Some (Max (set (hits_of pid rows)), mean (hits_of pid rows), cs)
              \<and> combinedScore (Max (set (hits_of pid rows)), mean (hits_of pid rows), cs)
                  = 0.7 * Max (set (hits_of pid rows)) + 0.3 * mean (hits_of pid rows)"
proof -
  from assms(2) obtain s where s: "s \<in> set (hits_of pid rows)" "0 \<le> s" by blast
  then have "s \<le> Max (set (hits_of pid rows))" by simp
  with s have "0 \<le> Max (set (hits_of pid rows))" by linarith
  then have "max 0 (Max (set (hits_of pid rows))) = Max (set (hits_of pid rows))"
    by (simp add: max_def)
  with aggregate_scores[OF assms(1)] show ?thesis by (auto simp: combinedScore_def)
qed

text \<open>The example of the specification: the similarities 0.9, 0.5 and 0.7 give 0.84.\<close>

lemma aggregate_example:
  "map (\<lambda>entry. (fst entry, fst (snd entry), fst (snd (snd entry)), combinedScore (snd entry)))
     (aggregate [(example_chunk ''a1'' ''A'' [], 0.9), (example_chunk ''a2'' ''A'' [], 0.5),
                 (example_chunk ''a3'' ''A'' [], 0.7)])
   = [(''A'', 0.9, 0.7, 0.84)]"
  by code_simp

text \<open>
  Claim C4: for every list of chunk hits and every product in it, \<^verbatim>\<open>maxSimilarity\<close> is the
  largest similarity of the product's retrieved chunks, \<^verbatim>\<open>avgSimilarity\<close> their mean, and
  the score of the product is \<open>0.7 * maxSimilarity + 0.3 * avgSimilarity\<close>.

  The mean and the blend are as claimed, and so is the maximum when one of the product's
  chunks has a similarity of at least 0 (\<open>aggregate_scores_nonneg\<close>). But the maximum is
  taken from 0 on (line 142, \<open>aggregate_scores\<close>): for a product whose retrieved chunks
  all have a negative similarity it is 0, not the largest similarity. Such chunks are
  retrieved when the caller sets a negative threshold.
\<close>

theorem aggregate_negative_similarities:
  "map snd (chunkResults example_external negative_db negative_options) = [- 0.6, - 0.8]
   \<and> map (\<lambda>entry. (fst entry, fst (snd entry), fst (snd (snd entry))))
         (aggregate (chunkResults example_external negative_db negative_options))
       = [(''N'', 0, - 0.7)]
   \<and> Max (set (hits_of ''N'' (chunkResults example_external negative_db negative_options))) = - 0.6
   \<and> map (\<lambda>r. (SearchResult.productId r, SearchResult.similarity r))
         (vectorSearch example_external negative_db negative_options)
       = [(''N'', - 0.21)]"
  by code_simp

section \<open>Properties of the result assembly\<close>

lemma productMap_Some:
  "productMap db ids k = Some p \<Longrightarrow> Product.id p = k \<and> p \<in> set (products db)"
  by (auto simp: productMap_def dest!: map_of_SomeD)

lemma productMap_None:
  "k \<in> set ids \<Longrightarrow> (productMap db ids k = None) = (k \<notin> Product.id ` set (products db))"
  by (force simp: productMap_def map_of_eq_None_iff)

lemma map_filter_Cons:
  "List.map_filter f (x # xs) = (case f x of None \<Rightarrow> List.map_filter f xs | Some y \<Rightarrow> y # List.map_filter f xs)"
  by (simp add: List.map_filter_def split: option.splits)

lemma build_results_ids:
  assumes "set (map fst items) \<subseteq> set ids"
  shows "map SearchResult.productId (build_results (productMap db ids) inc items)
         = filter (\<lambda>pid. pid \<in> Product.id ` set (products db)) (map fst items)"
  using assms
proof (induction items)
  case Nil
  then show ?case by (simp add: build_results_def List.map_filter_simps)
next
  case (Cons item items)
  then have IH: "map SearchResult.productId (build_results (productMap db ids) inc items)
         = filter (\<lambda>pid. pid \<in> Product.id ` set (products db)) (map fst items)" by simp
  have mem: "fst item \<in> set ids" using Cons.prems by simp
  show ?case
  proof (cases "productMap db ids (fst item)")
    case None
    then have "fst item \<notin> Product.id ` set (products db)" using productMap_None[OF mem] by simp
    with None IH show ?thesis by (simp add: build_results_def map_filter_Cons)
  next
    case (Some p)
    then have "fst item \<in> Product.id ` set (products db)"
      using productMap_None[OF mem, of db] by auto
    moreover have "Product.id p = fst item" using productMap_Some[OF Some] by simp
    ultimately show ?thesis using Some IH
      by (simp add: build_results_def map_filter_Cons to_SearchResult_def)
  qed
qed

lemma build_results_similarity:
  "map SearchResult.similarity (build_results pm inc items)
   = map (\<lambda>item. fst (snd item)) (filter (\<lambda>item. pm (fst item) \<noteq> None) items)"
  by (induction items)
     (auto simp: build_results_def map_filter_Cons List.map_filter_simps to_SearchResult_def
           split: option.splits)

lemma build_results_pairs:
  assumes "set (map fst items) \<subseteq> set ids"
  shows "map (\<lambda>r. (SearchResult.productId r, SearchResult.similarity r))
           (build_results (productMap db ids) inc items)
         = map (\<lambda>item. (fst item, fst (snd item)))
             (filter (\<lambda>item. fst item \<in> Product.id ` set (products db)) items)"
  using assms
proof (induction items)
  case Nil
  then show ?case by (simp add: build_results_def List.map_filter_simps)
next
  case (Cons item items)
  then have IH: "map (\<lambda>r. (SearchResult.productId r, SearchResult.similarity r))
           (build_results (productMap db ids) inc items)
         = map (\<lambda>item. (fst item, fst (snd item)))
             (filter (\<lambda>item. fst item \<in> Product.id ` set (products db)) items)" by simp
  have mem: "fst item \<in> set ids" using Cons.prems by simp
  show ?case
  proof (cases "productMap db ids (fst item)")
    case None
    then have "fst item \<notin> Product.id ` set (products db)" using productMap_None[OF mem] by simp
    with None IH show ?thesis by (simp add: build_results_def map_filter_Cons)
  next
    case (Some p)
    then have "fst item \<in> Product.id ` set (products db)"
      using productMap_None[OF mem, of db] by auto
    moreover have "Product.id p = fst item" using productMap_Some[OF Some] by simp
    ultimately show ?thesis using Some IH
      by (simp add: build_results_def map_filter_Cons to_SearchResult_def)
  qed
qed

lemma vectorSearch_no_rerank:
  assumes "rerank options \<noteq> Some True"
  shows "vectorSearch ext db options
         = (let top = topProductIds (aggregate (chunkResults ext db options)) (limit_or_default options)
            in build_results (productMap db (map fst top)) (includeChunks options = Some True) top)"
  using assms
  by (simp add: vectorSearch_def Let_def build_results_def List.map_filter_simps)

text \<open>
  Claim C9: a product id of the final ranking whose lookup finds no product is left out
  of the assembled list without an error; the other results are returned.

  The assembled list is the ranking without the ids that no row of \<^verbatim>\<open>products\<close> carries,
  each result with its id and score, in the order of the ranking. \<^verbatim>\<open>vectorSearch\<close>
  returns this list when it does not rerank.
\<close>

theorem unresolved_ids_are_dropped:
  "map (\<lambda>r. (SearchResult.productId r, SearchResult.similarity r))
     (build_results (productMap db (map fst items)) inc items)
   = map (\<lambda>item. (fst item, fst (snd item)))
       (filter (\<lambda>item. fst item \<in> Product.id ` set (products db)) items)
   \<and> (rerank options \<noteq> Some True \<longrightarrow>
        map SearchResult.productId (vectorSearch ext db options)
        = filter (\<lambda>pid. pid \<in> Product.id ` set (products db))
            (map fst (topProductIds (aggregate (chunkResults ext db options))
                        (limit_or_default options))))"
proof (intro conjI impI)
  show "map (\<lambda>r. (SearchResult.productId r, SearchResult.similarity r))
     (build_results (productMap db (map fst items)) inc items)
   = map (\<lambda>item. (fst item, fst (snd item)))
       (filter (\<lambda>item. fst item \<in> Product.id ` set (products db)) items)"
    by (rule build_results_pairs) simp
next
  assume "rerank options \<noteq> Some True"
  then show "map SearchResult.productId (vectorSearch ext db options)
        = filter (\<lambda>pid. pid \<in> Product.id ` set (products db))
            (map fst (topProductIds (aggregate (chunkResults ext db options))
                        (limit_or_default options)))"
    by (simp add: vectorSearch_no_rerank Let_def build_results_ids)
qed

theorem unresolved_ids_are_dropped_witness:
  "rerank ((example_options ''seife'')\<lparr> rerank := None \<rparr>) \<noteq> Some True
   \<and> map fst (topProductIds (aggregate (chunkResults example_external orphan_db
                 ((example_options ''seife'')\<lparr> rerank := None \<rparr>))) 10)
       = [''Z'', ''A'', ''B'', ''C'']
   \<and> map SearchResult.productId (vectorSearch example_external orphan_db
         ((example_options ''seife'')\<lparr> rerank := None \<rparr>))
       = filter (\<lambda>pid. pid \<in> Product.id ` set (products orphan_db)) [''Z'', ''A'', ''B'', ''C'']
   \<and> map SearchResult.productId (vectorSearch example_external orphan_db
         ((example_options ''seife'')\<lparr> rerank := None \<rparr>))
       = [''A'', ''B'', ''C'']"
proof -
  let ?o = "(example_options ''seife'')\<lparr> rerank := None \<rparr>"
  have h: "rerank ?o \<noteq> Some True" by (simp add: example_options_def)
  have l: "limit_or_default ?o = 10" by (simp add: limit_or_default_def example_options_def)
  have t: "map fst (topProductIds (aggregate (chunkResults example_external orphan_db ?o)) 10)
       = [''Z'', ''A'', ''B'', ''C'']" by code_simp
  have r: "map SearchResult.productId (vectorSearch example_external orphan_db ?o)
       = [''A'', ''B'', ''C'']" by code_simp
  from unresolved_ids_are_dropped[of orphan_db "[]" False ?o example_external, THEN conjunct2, rule_format, OF h]
  have "map SearchResult.productId (vectorSearch example_external orphan_db ?o)
        = filter (\<lambda>pid. pid \<in> Product.id ` set (products orphan_db)) [''Z'', ''A'', ''B'', ''C'']"
    unfolding l t .
  with h t r show ?thesis by blast
qed

section \<open>Properties of the chunk query\<close>

lemma length_filter_mono:
  "(\<And>x. P x \<Longrightarrow> Q x) \<Longrightarrow> length (filter P xs) \<le> length (filter Q xs)"
  by (induction xs) auto

lemma set_sql_limit: "set (sql_limit n rows) \<subseteq> set rows"
  by (auto simp: sql_limit_def dest: in_set_takeD)

lemma length_sql_limit_mono:
  "length xs \<le> length ys \<Longrightarrow> length (sql_limit n xs) \<le> length (sql_limit n ys)"
  by (auto simp: sql_limit_def)

lemma ranked_chunks_mset:
  "mset (ranked_chunks ext db q conds thr)
   = {# row \<in># mset (scored_chunks ext db q).
        thr < snd row \<and> eligible db conds (ProductChunk.productId (fst row)) #}"
  by (simp add: ranked_chunks_def chunk_matches_def)

lemma ranked_chunks_descending: "descending (map snd (ranked_chunks ext db q conds thr))"
  unfolding ranked_chunks_def by (rule descending_sort_key)

lemma ranked_chunks_length_mono:
  assumes "thr \<le> thr'"
  shows "length (ranked_chunks ext db q conds thr') \<le> length (ranked_chunks ext db q conds thr)"
proof -
  have "length (filter (chunk_matches db conds thr') (scored_chunks ext db q))
        \<le> length (filter (chunk_matches db conds thr) (scored_chunks ext db q))"
    using assms by (intro length_filter_mono) (auto simp: chunk_matches_def)
  then show ?thesis by (simp add: ranked_chunks_def)
qed

subsection \<open>The conditions of the chunk query and the predicate\<close>

lemma vector_filterConditions_satisfies:
  "list_all (\<lambda>condition. condition p) (vector_filterConditions f) = satisfies f p"
  by (auto simp: vector_filterConditions_def shop_price_conditions_def membership_conditions_def
      satisfies_def split: option.splits list.splits)

lemma vector_filterConditions_empty: "(vector_filterConditions f = []) = unconstrained f"
  by (auto simp: vector_filterConditions_def shop_price_conditions_def membership_conditions_def
      unconstrained_def split: option.splits list.splits)

text \<open>
  With \<^verbatim>\<open>products.id\<close> a primary key, the subselects of lines 122 to 126 admit a chunk
  exactly when it matches the predicate.
\<close>

lemma eligible_predicate_matching:
  assumes "primary_key db"
  shows "eligible db (vector_filterConditions f) (ProductChunk.productId c)
         = predicate_matching f db c"
proof (cases "product_of db c")
  case None
  then have no: "\<forall>p \<in> set (products db). Product.id p \<noteq> ProductChunk.productId c"
    by (auto simp: product_of_def find_None_iff)
  have "eligible db (vector_filterConditions f) (ProductChunk.productId c)
        = (vector_filterConditions f = [])"
  proof (cases "vector_filterConditions f")
    case Nil
    then show ?thesis by (simp add: eligible_def)
  next
    case (Cons condition conds)
    have "ProductChunk.productId c \<notin> set (map Product.id (filter condition (products db)))"
      using no by auto
    with Cons show ?thesis by (simp add: eligible_def)
  qed
  with None show ?thesis
    by (simp add: predicate_matching_def vector_filterConditions_empty)
next
  case (Some p)
  then have p: "p \<in> set (products db)" "Product.id p = ProductChunk.productId c"
    by (auto simp: product_of_def find_Some_iff)
  have inj: "inj_on Product.id (set (products db))"
    using assms by (simp add: primary_key_def distinct_map)
  have "(ProductChunk.productId c \<in> set (map Product.id (filter condition (products db))))
        = condition p" for condition
  proof
    assume "ProductChunk.productId c \<in> set (map Product.id (filter condition (products db)))"
    then obtain p' where "p' \<in> set (products db)" "condition p'"
      "Product.id p' = ProductChunk.productId c" by auto
    with inj p show "condition p" by (metis inj_onD)
  next
    assume "condition p"
    with p show "ProductChunk.productId c \<in> set (map Product.id (filter condition (products db)))"
      by force
  qed
  then have "eligible db (vector_filterConditions f) (ProductChunk.productId c)
             = list_all (\<lambda>condition. condition p) (vector_filterConditions f)"
    by (simp add: eligible_def)
  with Some show ?thesis
    by (simp add: predicate_matching_def vector_filterConditions_satisfies)
qed

lemma scored_chunks_rows:
  "map fst (filter (\<lambda>row. thr < snd row \<and> P (fst row)) (scored_chunks ext db q))
   = filter (\<lambda>c. (case embedding c of None \<Rightarrow> False
                    | Some e \<Rightarrow> thr < 1 - cosine_distance ext e q) \<and> P c)
       (productChunks db)"
proof -
  have "map fst (filter (\<lambda>row. thr < snd row \<and> P (fst row))
          (List.map_filter (\<lambda>c. map_option (\<lambda>s. (c, s)) (chunk_similarity ext q c)) cs))
        = filter (\<lambda>c. (case embedding c of None \<Rightarrow> False
                    | Some e \<Rightarrow> thr < 1 - cosine_distance ext e q) \<and> P c) cs" for cs
    by (induction cs)
       (auto simp: List.map_filter_simps chunk_similarity_def split: option.splits)
  then show ?thesis by (simp add: scored_chunks_def)
qed

lemma ranked_chunks_kept:
  assumes "primary_key db"
  shows "mset (map fst (ranked_chunks ext db q (vector_filterConditions f) thr))
         = {# c \<in># mset (productChunks db).
              (case embedding c of None \<Rightarrow> False
               | Some e \<Rightarrow> thr < 1 - cosine_distance ext e q)
              \<and> predicate_matching f db c #}"
proof -
  have "mset (map fst (ranked_chunks ext db q (vector_filterConditions f) thr))
        = mset (map fst (filter (\<lambda>row. thr < snd row \<and> predicate_matching f db (fst row))
                           (scored_chunks ext db q)))"
    unfolding ranked_chunks_def chunk_matches_def eligible_predicate_matching[OF assms]
    by simp
  also have "\<dots> = mset (filter (\<lambda>c. (case embedding c of None \<Rightarrow> False
                    | Some e \<Rightarrow> thr < 1 - cosine_distance ext e q) \<and> predicate_matching f db c)
       (productChunks db))"
    by (simp only: scored_chunks_rows)
  finally show ?thesis by simp
qed

lemma ranked_chunks_score:
  assumes "row \<in> set (ranked_chunks ext db q conds thr)"
  shows "map_option (\<lambda>e. 1 - cosine_distance ext e q) (embedding (fst row)) = Some (snd row)"
proof -
  from assms have "row \<in> set (scored_chunks ext db q)" by (simp add: ranked_chunks_def)
  then show ?thesis
    by (auto simp: scored_chunks_def List.map_filter_def chunk_similarity_def split: option.splits)
qed

text \<open>
  Claim C7: the vector retriever keeps exactly the predicate-matching chunks whose cosine
  similarity is strictly greater than the threshold; raising the threshold never
  increases the number of matched chunks.

  \<open>ranked_chunks\<close> is the \<^verbatim>\<open>where\<close> and \<^verbatim>\<open>orderBy\<close> of the chunk query for the filter object
  \<open>f\<close> and the query embedding \<open>q\<close>, \<open>chunk_query\<close> adds its \<^verbatim>\<open>limit\<close> and \<^verbatim>\<open>offset\<close>; the count
  falls or stays for both. The chunks kept are those of the table that have an
  embedding, whose similarity \<open>1 - cosine_distance\<close> is greater than the threshold and
  that match the predicate; each is kept once, with that similarity. A chunk matches the
  predicate when its product, the row of \<^verbatim>\<open>products\<close> with the chunk's \<^verbatim>\<open>product_id\<close>,
  satisfies \<open>f\<close> (\<open>predicate_matching\<close>, stated with the predicate \<open>satisfies\<close> of section
  4.1); \<^verbatim>\<open>products.id\<close> is the primary key of that table.
\<close>

theorem threshold_monotone:
  assumes "thr \<le> thr'"
  shows "(primary_key db \<longrightarrow>
            mset (map fst (ranked_chunks ext db q (vector_filterConditions f) thr))
            = {# c \<in># mset (productChunks db).
                 (case embedding c of None \<Rightarrow> False
                  | Some e \<Rightarrow> thr < 1 - cosine_distance ext e q)
                 \<and> predicate_matching f db c #})
       \<and> (\<forall>row \<in> set (ranked_chunks ext db q (vector_filterConditions f) thr).
             map_option (\<lambda>e. 1 - cosine_distance ext e q) (embedding (fst row)) = Some (snd row))
       \<and> descending (map snd (ranked_chunks ext db q (vector_filterConditions f) thr))
       \<and> length (ranked_chunks ext db q (vector_filterConditions f) thr')
           \<le> length (ranked_chunks ext db q (vector_filterConditions f) thr)
       \<and> length (chunk_query ext db q (vector_filterConditions f) thr' lmt off)
           \<le> length (chunk_query ext db q (vector_filterConditions f) thr lmt off)"
proof -
  let ?conds = "vector_filterConditions f"
  have 1: "primary_key db \<longrightarrow>
            mset (map fst (ranked_chunks ext db q ?conds thr))
            = {# c \<in># mset (productChunks db).
                 (case embedding c of None \<Rightarrow> False
                  | Some e \<Rightarrow> thr < 1 - cosine_distance ext e q)
                 \<and> predicate_matching f db c #}"
    using ranked_chunks_kept by blast
  have 2: "\<forall>row \<in> set (ranked_chunks ext db q ?conds thr).
             map_option (\<lambda>e. 1 - cosine_distance ext e q) (embedding (fst row)) = Some (snd row)"
    using ranked_chunks_score by blast
  have 3: "descending (map snd (ranked_chunks ext db q ?conds thr))"
    by (rule ranked_chunks_descending)
  have 4: "length (ranked_chunks ext db q ?conds thr') \<le> length (ranked_chunks ext db q ?conds thr)"
    by (rule ranked_chunks_length_mono[OF assms])
  have 5: "length (chunk_query ext db q ?conds thr' lmt off)
           \<le> length (chunk_query ext db q ?conds thr lmt off)"
    using 4 by (simp add: chunk_query_def length_sql_limit_mono)
  from 1 2 3 4 5 show ?thesis by (intro conjI)
qed

theorem threshold_monotone_witness:
  "(0.5::real) \<le> 0.9
   \<and> primary_key example_db
   \<and> map (\<lambda>row. (ProductChunk.id (fst row), snd row))
       (ranked_chunks example_external example_db [1, 0]
          (vector_filterConditions (no_filters\<lparr> categories := Some [''Bath''] \<rparr>)) 0.5)
     = [(''a1'', 1), (''b1'', 0.96), (''a2'', 0.8)]
   \<and> map (\<lambda>row. (ProductChunk.id (fst row), snd row))
       (ranked_chunks example_external example_db [1, 0]
          (vector_filterConditions (no_filters\<lparr> categories := Some [''Bath''] \<rparr>)) 0.9)
     = [(''a1'', 1), (''b1'', 0.96)]
   \<and> map (\<lambda>c. (ProductChunk.id c, predicate_matching (no_filters\<lparr> categories := Some [''Bath''] \<rparr>) example_db c))
       (productChunks example_db)
     = [(''a1'', True), (''a2'', True), (''b1'', True), (''c1'', False)]
   \<and> mset (map fst (ranked_chunks example_external example_db [1, 0]
             (vector_filterConditions (no_filters\<lparr> categories := Some [''Bath''] \<rparr>)) 0.5))
       = {# c \<in># mset (productChunks example_db).
            (case embedding c of None \<Rightarrow> False
             | Some e \<Rightarrow> 0.5 < 1 - cosine_distance example_external e [1, 0])
            \<and> predicate_matching (no_filters\<lparr> categories := Some [''Bath''] \<rparr>) example_db c #}
   \<and> length (ranked_chunks example_external example_db [1, 0]
               (vector_filterConditions (no_filters\<lparr> categories := Some [''Bath''] \<rparr>)) 0.9)
       \<le> length (ranked_chunks example_external example_db [1, 0]
                   (vector_filterConditions (no_filters\<lparr> categories := Some [''Bath''] \<rparr>)) 0.5)"
proof -
  let ?f = "no_filters\<lparr> categories := Some [''Bath''] \<rparr>"
  have h: "(0.5::real) \<le> 0.9" by simp
  have pk: "primary_key example_db" by code_simp
  have a: "map (\<lambda>row. (ProductChunk.id (fst row), snd row))
       (ranked_chunks example_external example_db [1, 0] (vector_filterConditions ?f) 0.5)
     = [(''a1'', 1), (''b1'', 0.96), (''a2'', 0.8)]"
    by code_simp
  have b: "map (\<lambda>row. (ProductChunk.id (fst row), snd row))
       (ranked_chunks example_external example_db [1, 0] (vector_filterConditions ?f) 0.9)
     = [(''a1'', 1), (''b1'', 0.96)]"
    by code_simp
  have c: "map (\<lambda>c. (ProductChunk.id c, predicate_matching ?f example_db c))
       (productChunks example_db)
     = [(''a1'', True), (''a2'', True), (''b1'', True), (''c1'', False)]"
    by code_simp
  note t = threshold_monotone[OF h, of example_db example_external "[1, 0]" ?f 10 0]
  from t pk have d: "mset (map fst (ranked_chunks example_external example_db [1, 0]
             (vector_filterConditions ?f) 0.5))
       = {# c \<in># mset (productChunks example_db).
            (case embedding c of None \<Rightarrow> False
             | Some e \<Rightarrow> 0.5 < 1 - cosine_distance example_external e [1, 0])
            \<and> predicate_matching ?f example_db c #}"
    by blast
  from t have e: "length (ranked_chunks example_external example_db [1, 0] (vector_filterConditions ?f) 0.9)
       \<le> length (ranked_chunks example_external example_db [1, 0] (vector_filterConditions ?f) 0.5)"
    by (elim conjE)
  from h pk a b c d e show ?thesis by (intro conjI)
qed

section \<open>Properties of \<^verbatim>\<open>vectorSearch\<close>\<close>

lemma chunkResults_window: "chunkResults ext db options = window ext db options"
  by (simp add: chunkResults_def chunk_query_def window_def)

lemma topProductIds_mem:
  assumes "item \<in> set (topProductIds ps lmt)"
  shows "\<exists>sc. (fst item, sc) \<in> set ps \<and> fst (snd item) = combinedScore sc"
proof -
  from assms have "item \<in> set (map (\<lambda>(pid, sc). (pid, combinedScore sc, snd (snd sc))) ps)"
    unfolding topProductIds_def by (auto dest: in_set_takeD)
  then obtain entry where "entry \<in> set ps"
    "item = (fst entry, combinedScore (snd entry), snd (snd (snd entry)))"
    by (auto simp: case_prod_beta)
  then show ?thesis by (intro exI[of _ "snd entry"]) simp
qed

lemma build_results_mem:
  assumes "r \<in> set (build_results (productMap db ids) inc items)"
  shows "\<exists>item \<in> set items. \<exists>p \<in> set (products db).
           Product.id p = fst item
           \<and> r = to_SearchResult p (fst (snd item)) (chunks r)"
  using assms
proof (induction items)
  case Nil
  then show ?case by (simp add: build_results_def List.map_filter_simps)
next
  case (Cons item items)
  show ?case
  proof (cases "productMap db ids (fst item)")
    case None
    with Cons show ?thesis by (auto simp: build_results_def map_filter_Cons)
  next
    case (Some p)
    from productMap_Some[OF Some] have p: "Product.id p = fst item" "p \<in> set (products db)"
      by simp_all
    from Cons.prems Some
    consider "r = to_SearchResult p (fst (snd item))
                (if inc then Some (take 3 (sort_key (\<lambda>c. - ChunkResult.similarity c) (snd (snd item))))
                 else None)"
      | "r \<in> set (build_results (productMap db ids) inc items)"
      by (auto simp: build_results_def map_filter_Cons)
    then show ?thesis
    proof cases
      case 1
      then have "r = to_SearchResult p (fst (snd item)) (chunks r)"
        by (simp add: to_SearchResult_def)
      with p show ?thesis by auto
    next
      case 2
      with Cons.IH show ?thesis by auto
    qed
  qed
qed

lemma vectorSearch_subset:
  "set (vectorSearch ext db options)
   \<subseteq> set (build_results
           (productMap db (map fst (topProductIds (aggregate (chunkResults ext db options))
                                      (limit_or_default options))))
           (includeChunks options = Some True)
           (topProductIds (aggregate (chunkResults ext db options)) (limit_or_default options)))"
proof -
  have "set (rerankResults q rs l) \<subseteq> set rs" for q rs l
    using rerankResults_sub[of q rs l] by (rule set_mset_mono[of "mset (rerankResults q rs l)" "mset rs", simplified])
  then show ?thesis by (auto simp: vectorSearch_def Let_def)
qed

lemma vectorSearch_result:
  assumes "r \<in> set (vectorSearch ext db options)"
  shows "SearchResult.productId r \<in> (\<lambda>row. ProductChunk.productId (fst row)) ` set (window ext db options)
         \<and> SearchResult.similarity r
             = 0.7 * max 0 (Max (set (hits_of (SearchResult.productId r) (window ext db options))))
               + 0.3 * mean (hits_of (SearchResult.productId r) (window ext db options))
         \<and> (\<exists>p \<in> set (products db). r = to_SearchResult p (SearchResult.similarity r) (chunks r))"
proof -
  let ?rows = "window ext db options"
  let ?top = "topProductIds (aggregate ?rows) (limit_or_default options)"
  from assms vectorSearch_subset[of ext db options]
  have "r \<in> set (build_results (productMap db (map fst ?top)) (includeChunks options = Some True) ?top)"
    by (auto simp: chunkResults_window)
  from build_results_mem[OF this] obtain item p where
    item: "item \<in> set ?top" and p: "p \<in> set (products db)" "Product.id p = fst item"
    and r: "r = to_SearchResult p (fst (snd item)) (chunks r)"
    by blast
  from r have rid: "SearchResult.productId r = fst item" and rsim: "SearchResult.similarity r = fst (snd item)"
    using p(2) by (metis SearchResult.select_convs(1) to_SearchResult_def,
                   metis SearchResult.select_convs(8) to_SearchResult_def)
  from topProductIds_mem[OF item] obtain sc where
    sc: "(fst item, sc) \<in> set (aggregate ?rows)" "fst (snd item) = combinedScore sc" by blast
  then have key: "fst item \<in> fst ` set (aggregate ?rows)" by force
  then have mem: "fst item \<in> (\<lambda>row. ProductChunk.productId (fst row)) ` set ?rows"
    by (simp add: aggregate_keys)
  from sc(1) have look: "map_of (aggregate ?rows) (fst item) = Some sc"
    using aggregate_distinct by (simp add: map_of_is_SomeI)
  from aggregate_scores[OF mem] look obtain cs where
    "sc = (max 0 (Max (set (hits_of (fst item) ?rows))), mean (hits_of (fst item) ?rows), cs)"
    by auto
  then have "combinedScore sc = 0.7 * max 0 (Max (set (hits_of (fst item) ?rows)))
               + 0.3 * mean (hits_of (fst item) ?rows)"
    by (simp add: combinedScore_def)
  with rid rsim sc(2) mem p r show ?thesis by (metis (no_types, lifting))
qed

text \<open>
  Claim C10: \<^verbatim>\<open>vectorSearch\<close> applies \<^verbatim>\<open>offset\<close> to the ranking of the chunks, before the
  aggregation by product: it skips the \<^verbatim>\<open>offset\<close> most similar chunks of the whole corpus,
  not products of the final list, so that an offset can change the scores and the
  products returned.

  Every returned product has a chunk in the window behind the skipped chunks, and its
  score is computed from its chunks in that window alone. On the example store, the
  offset 1 lowers the score of \<open>A\<close> from 0.97 to 0.8 and puts \<open>B\<close> first, where skipping one
  product of the list \<open>A, B, C\<close> would leave \<open>B, C\<close>; the offset 3 leaves \<open>C\<close> alone.
\<close>

theorem offset_skips_ranked_chunks:
  "chunkResults ext db options
   = sql_limit (limit_or_default options * 3)
       (drop (offset_or_default options)
          (ranked_chunks ext db (generateEmbeddings ext (query options))
             (vector_filterConditions (filters_or_default options))
             (threshold_or_default options)))
   \<and> (\<forall>r \<in> set (vectorSearch ext db options).
         SearchResult.productId r
           \<in> (\<lambda>row. ProductChunk.productId (fst row)) ` set (window ext db options)
         \<and> SearchResult.similarity r
             = 0.7 * max 0 (Max (set (hits_of (SearchResult.productId r) (window ext db options))))
               + 0.3 * mean (hits_of (SearchResult.productId r) (window ext db options)))
   \<and> map (\<lambda>r. (SearchResult.productId r, SearchResult.similarity r))
         (vectorSearch example_external example_db ((example_options ''seife'')\<lparr> rerank := None \<rparr>))
       = [(''A'', 0.97), (''B'', 0.96), (''C'', 0.6)]
   \<and> map (\<lambda>r. (SearchResult.productId r, SearchResult.similarity r))
         (vectorSearch example_external example_db
            ((example_options ''seife'')\<lparr> rerank := None, offset := Some 1 \<rparr>))
       = [(''B'', 0.96), (''A'', 0.8), (''C'', 0.6)]
   \<and> map (\<lambda>r. (SearchResult.productId r, SearchResult.similarity r))
         (vectorSearch example_external example_db
            ((example_options ''seife'')\<lparr> rerank := None, offset := Some 3 \<rparr>))
       = [(''C'', 0.6)]"
proof -
  have 1: "chunkResults ext db options
   = sql_limit (limit_or_default options * 3)
       (drop (offset_or_default options)
          (ranked_chunks ext db (generateEmbeddings ext (query options))
             (vector_filterConditions (filters_or_default options))
             (threshold_or_default options)))"
    by (simp add: chunkResults_def chunk_query_def)
  have 2: "\<forall>r \<in> set (vectorSearch ext db options).
         SearchResult.productId r
           \<in> (\<lambda>row. ProductChunk.productId (fst row)) ` set (window ext db options)
         \<and> SearchResult.similarity r
             = 0.7 * max 0 (Max (set (hits_of (SearchResult.productId r) (window ext db options))))
               + 0.3 * mean (hits_of (SearchResult.productId r) (window ext db options))"
    using vectorSearch_result[of _ ext db options] by blast
  have 3: "map (\<lambda>r. (SearchResult.productId r, SearchResult.similarity r))
         (vectorSearch example_external example_db ((example_options ''seife'')\<lparr> rerank := None \<rparr>))
       = [(''A'', 0.97), (''B'', 0.96), (''C'', 0.6)]"
    by code_simp
  have 4: "map (\<lambda>r. (SearchResult.productId r, SearchResult.similarity r))
         (vectorSearch example_external example_db
            ((example_options ''seife'')\<lparr> rerank := None, offset := Some 1 \<rparr>))
       = [(''B'', 0.96), (''A'', 0.8), (''C'', 0.6)]"
    by code_simp
  have 5: "map (\<lambda>r. (SearchResult.productId r, SearchResult.similarity r))
         (vectorSearch example_external example_db
            ((example_options ''seife'')\<lparr> rerank := None, offset := Some 3 \<rparr>))
       = [(''C'', 0.6)]"
    by code_simp
  from 1 2 3 4 5 show ?thesis by (intro conjI)
qed

theorem offset_skips_ranked_chunks_witness:
  "map (\<lambda>row. (ProductChunk.id (fst row), snd row))
     (window example_external example_db ((example_options ''seife'')\<lparr> offset := Some 1 \<rparr>))
   = [(''b1'', 0.96), (''a2'', 0.8), (''c1'', 0.6)]
   \<and> map SearchResult.productId
         (vectorSearch example_external example_db ((example_options ''seife'')\<lparr> offset := Some 1 \<rparr>))
       = [''B'', ''C'', ''A'']
   \<and> SearchResult.productId `
         set (vectorSearch example_external example_db ((example_options ''seife'')\<lparr> offset := Some 1 \<rparr>))
       \<subseteq> {''B'', ''A'', ''C''}"
proof -
  let ?o = "((example_options ''seife'')\<lparr> offset := Some 1 \<rparr>)"
  have w: "map (\<lambda>row. (ProductChunk.id (fst row), snd row)) (window example_external example_db ?o)
           = [(''b1'', 0.96), (''a2'', 0.8), (''c1'', 0.6)]"
    by code_simp
  have r: "map SearchResult.productId (vectorSearch example_external example_db ?o)
           = [''B'', ''C'', ''A'']"
    by code_simp
  have ids: "(\<lambda>row. ProductChunk.productId (fst row)) ` set (window example_external example_db ?o)
             = {''B'', ''A'', ''C''}"
    by code_simp
  from offset_skips_ranked_chunks[of example_external example_db ?o]
  have "\<forall>r \<in> set (vectorSearch example_external example_db ?o).
          SearchResult.productId r
            \<in> (\<lambda>row. ProductChunk.productId (fst row)) ` set (window example_external example_db ?o)"
    by blast
  then have "SearchResult.productId ` set (vectorSearch example_external example_db ?o)
             \<subseteq> {''B'', ''A'', ''C''}"
    unfolding ids by blast
  with w r show ?thesis by (intro conjI)
qed

subsection \<open>The limit 0\<close>

text \<open>
  For the limit 0 the chunk query has no \<^verbatim>\<open>LIMIT\<close> and returns every matching chunk
  behind the offset; line 172 then keeps no product, and line 176 returns the empty list.
\<close>

lemma vectorSearch_limit_zero:
  assumes "limit options = Some 0"
  shows "chunkResults ext db options
         = drop (offset_or_default options)
             (ranked_chunks ext db (generateEmbeddings ext (query options))
                (vector_filterConditions (filters_or_default options))
                (threshold_or_default options))"
    and "vectorSearch ext db options = []"
  using assms
  by (simp_all add: chunkResults_def chunk_query_def sql_limit_def limit_or_default_def
      vectorSearch_def topProductIds_def)

subsection \<open>The filters in \<^verbatim>\<open>vectorSearch\<close>\<close>

text \<open>
  With \<^verbatim>\<open>products.id\<close> a primary key, every result of \<^verbatim>\<open>vectorSearch\<close> is built from a
  product that satisfies the filters.
\<close>

lemma window_eligible:
  assumes "row \<in> set (window ext db options)"
  shows "eligible db (vector_filterConditions (filters_or_default options))
           (ProductChunk.productId (fst row))"
proof -
  from assms have "row \<in> set (ranked_chunks ext db (generateEmbeddings ext (query options))
             (vector_filterConditions (filters_or_default options))
             (threshold_or_default options))"
    unfolding window_def using set_sql_limit by (fastforce dest: in_set_dropD)
  then show ?thesis by (simp add: ranked_chunks_def chunk_matches_def)
qed

lemma vectorSearch_respects_filters:
  assumes "distinct (map Product.id (products db))"
      and "r \<in> set (vectorSearch ext db options)"
  shows "\<exists>p \<in> set (products db).
           r = to_SearchResult p (SearchResult.similarity r) (chunks r)
           \<and> satisfies (filters_or_default options) p"
proof -
  from vectorSearch_result[OF assms(2)] obtain p row where
    p: "p \<in> set (products db)" "r = to_SearchResult p (SearchResult.similarity r) (chunks r)"
    and row: "row \<in> set (window ext db options)"
      "ProductChunk.productId (fst row) = SearchResult.productId r"
    by force
  from p(2) have id: "SearchResult.productId r = Product.id p"
    by (metis SearchResult.select_convs(1) to_SearchResult_def)
  have inj: "inj_on Product.id (set (products db))"
    using assms(1) by (simp add: distinct_map)
  have "list_all (\<lambda>condition. condition p) (vector_filterConditions (filters_or_default options))"
    unfolding list_all_iff
  proof
    fix condition
    assume "condition \<in> set (vector_filterConditions (filters_or_default options))"
    with window_eligible[OF row(1)] row(2) id
    have "Product.id p \<in> set (map Product.id (filter condition (products db)))"
      by (simp add: eligible_def list_all_iff)
    then obtain p' where "p' \<in> set (products db)" "condition p'" "Product.id p' = Product.id p"
      by auto
    with inj p(1) show "condition p" by (auto dest: inj_onD)
  qed
  with p show ?thesis by (auto simp: vector_filterConditions_satisfies)
qed

section \<open>Properties of \<^verbatim>\<open>keywordSearch\<close>\<close>

lemma keyword_score_Max:
  "keyword_score ext q p
   = Max {trgm_similarity ext (Product.name p) q,
          trgm_similarity ext (coalesce (Product.description p)) q,
          trgm_similarity ext (coalesce (Product.category p)) q,
          trgm_similarity ext (coalesce (Product.brand p)) q}"
  by (simp add: keyword_score_def max.commute max.left_commute)


text \<open>
  Claim C8: the lexical retriever gives each product that matches the predicate the
  largest of the four similarities of name, description, category and brand to the query
  and returns the top \<^verbatim>\<open>limit\<close> of these products in descending order of that score.

  The score that the statement selects is the largest of the four similarities (lines
  414 to 421). The statement is not executed: line 435 orders by the name \<^verbatim>\<open>similarity\<close>,
  which is the key of the field in the source and the name of no column, since the
  field is selected without \<^verbatim>\<open>.as('similarity')\<close>; \<^verbatim>\<open>vectorSearch\<close> repeats the whole
  expression in its \<^verbatim>\<open>orderBy\<close> (line 129). For every store and all options the keyword
  search ends with the error of the store and returns no product.
\<close>

theorem keywordSearch_raises:
  "keywordSearch ext db options = Inl (UndefinedColumn ''similarity'')
   \<and> keywordSearch example_external keyword_db (example_options ''soapbar'')
       = Inl (UndefinedColumn ''similarity'')
   \<and> ''similarity'' \<notin> set keyword_select_names \<union> set products_columns
   \<and> map (\<lambda>p. (Product.id p, keyword_score example_external ''soapbar'' p)) (products keyword_db)
       = [(''X'', 6 / 11), (''Y'', 8 / 23)]
   \<and> keyword_score ext q p
       = Max {trgm_similarity ext (Product.name p) q,
              trgm_similarity ext (coalesce (Product.description p)) q,
              trgm_similarity ext (coalesce (Product.category p)) q,
              trgm_similarity ext (coalesce (Product.brand p)) q}"
proof -
  have 1: "keywordSearch ext db options = Inl (UndefinedColumn ''similarity'')"
    by (simp add: keywordSearch_def keyword_rows_error)
  have 2: "keywordSearch example_external keyword_db (example_options ''soapbar'')
       = Inl (UndefinedColumn ''similarity'')"
    by (simp add: keywordSearch_def keyword_rows_error)
  have 3: "''similarity'' \<notin> set keyword_select_names \<union> set products_columns"
    by (simp add: keyword_select_names_def products_columns_def)
  have 4: "map (\<lambda>p. (Product.id p, keyword_score example_external ''soapbar'' p)) (products keyword_db)
       = [(''X'', 6 / 11), (''Y'', 8 / 23)]"
    by code_simp
  from 1 2 3 4 keyword_score_Max[of ext q p] show ?thesis by (intro conjI)
qed

end
